theory Spec2Isabelle
  imports Main "HOL-Library.Word"
begin

unbundle bit_operations_syntax

section \<open>Data model of the motor-control interrupt (bldc.c)\<close>

text \<open>
  The C integer types are words of their width.  Signed types use the same words and are
  read with \<open>sint\<close>; conversions between widths are \<open>ucast\<close> (keep the low bits,
  zero-extend).  Where C promotes 8- and 16-bit operands to \<open>int\<close> before an operation,
  the operation is written on HOL's \<open>int\<close>: the operands are at most 16 bits wide, so the
  32-bit \<open>int\<close> of the target cannot overflow there.
\<close>

type_synonym uint8_t = "8 word"
type_synonym uint16_t = "16 word"
type_synonym uint32_t = "32 word"
type_synonym uint64_t = "64 word"
type_synonym int16_t = "16 word"
type_synonym int32_t = "32 word"

text \<open>The fields of \<open>adc_buffer\<close> that this file reads (the struct is declared in defines.h).\<close>

record adc_buf_t =
  rlA :: uint16_t
  rlB :: uint16_t
  rrB :: uint16_t
  rrC :: uint16_t
  dcl :: uint16_t
  dcr :: uint16_t
  batt1 :: uint16_t

text \<open>
  What the hardware presents during one invocation of the interrupt: for each hall line
  whether \<open>PORT->IDR & PIN\<close> is non-zero, and the ADC samples the DMA has stored.
\<close>

record inputs =
  LEFT_HALL_U :: bool
  LEFT_HALL_V :: bool
  LEFT_HALL_W :: bool
  RIGHT_HALL_U :: bool
  RIGHT_HALL_V :: bool
  RIGHT_HALL_W :: bool
  adc_buffer :: adc_buf_t

text \<open>
  The records of the generated controller that this file reads and writes (declared in
  BLDC_controller.h): the inputs \<open>rtU\<close>, the outputs \<open>rtY\<close> and the parameters \<open>rtP\<close>.
\<close>

record ExtU =
  b_motEna :: uint8_t
  z_ctrlModReq :: uint8_t
  r_inpTgt :: int16_t
  b_hallA :: uint8_t
  b_hallB :: uint8_t
  b_hallC :: uint8_t
  i_phaAB :: int16_t
  i_phaBC :: int16_t
  i_DCLink :: int16_t

record ExtY =
  DC_phaA :: int16_t
  DC_phaB :: int16_t
  DC_phaC :: int16_t
  z_errCode :: uint8_t

record P =
  z_ctrlTypSel :: uint8_t

text \<open>The registers of a motor timer that this file writes.\<close>

record TIM_TypeDef =
  BDTR :: uint32_t
  TIM_U :: uint32_t
  TIM_V :: uint32_t
  TIM_W :: uint32_t

text \<open>The functions of this file that the two function pointers can be bound to.\<close>

datatype IsrPtr = Isr_nullFunc | Isr_calibration_func | Isr_bldc_control

text \<open>
  The constants, macros and external functions that the file takes from headers outside
  it are parameters: the sample target, the current ceiling, the PWM period, the code of
  the field-oriented control type, the register masks, the build switches of the two
  motors, the controller step (an opaque function from parameters, inputs, previous
  outputs and its internal state \<open>'dw\<close> to new outputs and state) and the low-pass filter.
\<close>

record 'dw config =
  CALIBRATION_SAMPLES :: uint32_t
  curDC_max :: int16_t
  pwm_res :: uint16_t
  FOC_CTRL :: uint8_t
  TIM_BDTR_MOE :: uint32_t
  DMA_IFCR_CTCIF1 :: uint32_t
  BAT_FILT_COEF :: uint16_t
  MOTOR_LEFT_ENA :: bool
  MOTOR_RIGHT_ENA :: bool
  BLDC_controller_step :: "P \<Rightarrow> ExtU \<Rightarrow> ExtY \<Rightarrow> 'dw \<Rightarrow> ExtY \<times> 'dw"
  filtLowPass32 :: "int32_t \<Rightarrow> uint16_t \<Rightarrow> int32_t \<Rightarrow> int32_t"

text \<open>
  The globals of the file, the static \<open>OverrunFlag\<close> of the interrupt handler, the
  controller records of both motors and the peripheral registers written.  The arrays
  \<open>steps[2]\<close> and \<open>pos[2][2]\<close> are functions of their (literal) indices.
\<close>

record 'dw state =
  offsetrlA :: uint32_t
  offsetrlB :: uint32_t
  offsetrrB :: uint32_t
  offsetrrC :: uint32_t
  offsetdcl :: uint32_t
  offsetdcr :: uint32_t
  pwm_margin :: int16_t
  curL_phaA :: int16_t
  curL_phaB :: int16_t
  curL_DC :: int16_t
  curR_phaB :: int16_t
  curR_phaC :: int16_t
  curR_DC :: int16_t
  steps :: "nat \<Rightarrow> uint16_t"
  pos :: "nat \<Rightarrow> nat \<Rightarrow> uint8_t"
  pwml :: int32_t
  pwmr :: int32_t
  ctrlModReq :: uint8_t
  buzzerFreq :: uint8_t
  buzzerPattern :: uint8_t
  buzzerCount :: uint8_t
  buzzerTimer :: uint32_t
  buzzerPrev :: uint8_t
  buzzerIdx :: uint8_t
  BUZZER_PIN :: bool
  enable :: uint8_t
  enableFin :: uint8_t
  mainCounter :: uint64_t
  batVoltage :: int16_t
  batVoltageFixdt :: int32_t
  timer_brushless :: IsrPtr
  buzzerFunc :: IsrPtr
  OverrunFlag :: bool
  rtP_Left :: P
  rtU_Left :: ExtU
  rtY_Left :: ExtY
  DW_Left :: 'dw
  rtP_Right :: P
  rtU_Right :: ExtU
  rtY_Right :: ExtY
  DW_Right :: 'dw
  LEFT_TIM :: TIM_TypeDef
  RIGHT_TIM :: TIM_TypeDef
  DMA1_IFCR :: uint32_t


section \<open>Position decoder\<close>

text \<open>The lookup table \<open>hall2pos[2][2][2]\<close>, lines 77 to 98.\<close>

definition hall2pos :: "uint8_t list list list" where
  "hall2pos = [[[6, 2], [4, 3]], [[0, 1], [5, 6]]]"

text \<open>
  C's logical negation of a masked register read, \<open>!(PORT->IDR & PIN)\<close>, stored in a
  \<open>uint8_t\<close>: 1 when the masked value is zero, 0 otherwise.
\<close>

definition c_not :: "bool \<Rightarrow> uint8_t" where
  "c_not nonzero = (if nonzero then 0 else 1)"

text \<open>The sector read for the left and for the right motor from the current hall lines.\<close>

definition current_posl :: "inputs \<Rightarrow> uint8_t" where
  "current_posl inp =
     (let hall_ul = c_not (LEFT_HALL_U inp);
          hall_vl = c_not (LEFT_HALL_V inp);
          hall_wl = c_not (LEFT_HALL_W inp)
      in hall2pos ! unat hall_ul ! unat hall_vl ! unat hall_wl)"

definition current_posr :: "inputs \<Rightarrow> uint8_t" where
  "current_posr inp =
     (let hall_ur = c_not (RIGHT_HALL_U inp);
          hall_vr = c_not (RIGHT_HALL_V inp);
          hall_wr = c_not (RIGHT_HALL_W inp)
      in hall2pos ! unat hall_ur ! unat hall_vr ! unat hall_wr)"

text \<open>A write \<open>a[i][j] = v\<close> to a two-dimensional array.\<close>

definition arr2_upd :: "(nat \<Rightarrow> nat \<Rightarrow> 'a) \<Rightarrow> nat \<Rightarrow> nat \<Rightarrow> 'a \<Rightarrow> (nat \<Rightarrow> nat \<Rightarrow> 'a)" where
  "arr2_upd a i j v = a(i := (a i)(j := v))"

section \<open>Calibration controller\<close>

text \<open>\<open>bldc_start_calibration\<close>, lines 110 to 127.\<close>

definition bldc_start_calibration :: "inputs \<Rightarrow> 'dw state \<Rightarrow> 'dw state" where
  "bldc_start_calibration inp s =
     (let s = s\<lparr>mainCounter := 0\<rparr>;
          s = s\<lparr>offsetrlA := 0\<rparr>;
          s = s\<lparr>offsetrlB := 0\<rparr>;
          s = s\<lparr>offsetrrB := 0\<rparr>;
          s = s\<lparr>offsetrrC := 0\<rparr>;
          s = s\<lparr>offsetdcl := 0\<rparr>;
          s = s\<lparr>offsetdcr := 0\<rparr>;
          s = s\<lparr>pos := arr2_upd (arr2_upd (pos s) 0 1 (current_posl inp)) 0 0 (current_posl inp)\<rparr>;
          s = s\<lparr>pos := arr2_upd (arr2_upd (pos s) 1 1 (current_posr inp)) 1 0 (current_posr inp)\<rparr>
      in s\<lparr>timer_brushless := Isr_calibration_func\<rparr>)"

text \<open>The six accumulations, which \<open>calibration_func\<close> has on lines 147 to 152 and again on 156 to 161.\<close>

definition adc_accumulate :: "inputs \<Rightarrow> 'dw state \<Rightarrow> 'dw state" where
  "adc_accumulate inp s =
     (let s = s\<lparr>offsetrlA := offsetrlA s + ucast (rlA (adc_buffer inp))\<rparr>;
          s = s\<lparr>offsetrlB := offsetrlB s + ucast (rlB (adc_buffer inp))\<rparr>;
          s = s\<lparr>offsetrrB := offsetrrB s + ucast (rrB (adc_buffer inp))\<rparr>;
          s = s\<lparr>offsetrrC := offsetrrC s + ucast (rrC (adc_buffer inp))\<rparr>;
          s = s\<lparr>offsetdcl := offsetdcl s + ucast (dcl (adc_buffer inp))\<rparr>
      in s\<lparr>offsetdcr := offsetdcr s + ucast (dcr (adc_buffer inp))\<rparr>)"

text \<open>
  The six divisions of lines 162 to 167 (unsigned 32-bit division).  The divisor is the
  compile-time constant \<open>CALIBRATION_SAMPLES\<close>; C leaves a division by zero undefined, so
  the theorems about a tick that can reach these lines take the constant to be non-zero.
\<close>

definition adc_divide :: "'dw config \<Rightarrow> 'dw state \<Rightarrow> 'dw state" where
  "adc_divide cfg s =
     (let s = s\<lparr>offsetrlA := offsetrlA s div CALIBRATION_SAMPLES cfg\<rparr>;
          s = s\<lparr>offsetrlB := offsetrlB s div CALIBRATION_SAMPLES cfg\<rparr>;
          s = s\<lparr>offsetrrB := offsetrrB s div CALIBRATION_SAMPLES cfg\<rparr>;
          s = s\<lparr>offsetrrC := offsetrrC s div CALIBRATION_SAMPLES cfg\<rparr>;
          s = s\<lparr>offsetdcl := offsetdcl s div CALIBRATION_SAMPLES cfg\<rparr>
      in s\<lparr>offsetdcr := offsetdcr s div CALIBRATION_SAMPLES cfg\<rparr>)"

text \<open>
  \<open>calibration_func\<close>, lines 129 to 170.  The sample target is compared with the 64-bit
  counter after conversion to 64 bits.
\<close>

definition calibration_func :: "'dw config \<Rightarrow> inputs \<Rightarrow> 'dw state \<Rightarrow> 'dw state" where
  "calibration_func cfg inp s =
     (let s = (if current_posl inp \<noteq> pos s 0 0 then bldc_start_calibration inp s else s);
          s = (if current_posr inp \<noteq> pos s 1 0 then bldc_start_calibration inp s else s)
      in if mainCounter s < ucast (CALIBRATION_SAMPLES cfg) then adc_accumulate inp s
         else if mainCounter s = ucast (CALIBRATION_SAMPLES cfg)
         then (adc_divide cfg (adc_accumulate inp s))\<lparr>timer_brushless := Isr_bldc_control\<rparr>
         else s)"

section \<open>Run-time control tick\<close>

text \<open>
  Modelled from the spec: the macro \<open>ABS\<close> of defines.h, which is not among the sources;
  the spec calls its result the magnitude of the current.  It is applied to an
  \<open>int16_t\<close> promoted to \<open>int\<close>.
\<close>

definition ABS :: "int \<Rightarrow> int" where
  "ABS a = (if a < 0 then - a else a)"

text \<open>
  Modelled from the spec: the macro \<open>CLAMP\<close> of defines.h, which is not among the
  sources; the spec has a value outside the interval clamped exactly to the boundary it
  passed, and a value inside unchanged.
\<close>

definition CLAMP :: "int \<Rightarrow> int \<Rightarrow> int \<Rightarrow> int" where
  "CLAMP x low high = (if x > high then high else if x < low then low else x)"

text \<open>
  \<open>bldc_control\<close>, lines 218 to 360, is written block by block, each block a function
  from the state before it to the state after it, in the order of the source.
\<close>

text \<open>Line 220: the combined enable; \<open>&&\<close> and \<open>!\<close> give 1 or 0.\<close>

definition enable_fault_gate :: "'dw state \<Rightarrow> 'dw state" where
  "enable_fault_gate s =
     s\<lparr>enableFin :=
         (if enable s \<noteq> 0 \<and> z_errCode (rtY_Left s) = 0 \<and> z_errCode (rtY_Right s) = 0
          then 1 else 0)\<rparr>"

text \<open>Lines 222 to 225: offset minus sample in 32 bits, converted to \<open>int16_t\<close>.\<close>

definition left_motor_currents :: "inputs \<Rightarrow> 'dw state \<Rightarrow> 'dw state" where
  "left_motor_currents inp s =
     (let s = s\<lparr>curL_phaA := ucast (offsetrlA s - ucast (rlA (adc_buffer inp)))\<rparr>;
          s = s\<lparr>curL_phaB := ucast (offsetrlB s - ucast (rlB (adc_buffer inp)))\<rparr>
      in s\<lparr>curL_DC := ucast (offsetdcl s - ucast (dcl (adc_buffer inp)))\<rparr>)"

text \<open>Lines 227 to 233: current chopping of the left timer.\<close>

definition left_current_chopping :: "'dw config \<Rightarrow> 'dw state \<Rightarrow> 'dw state" where
  "left_current_chopping cfg s =
     (if ABS (sint (curL_DC s)) > sint (curDC_max cfg) \<or> enable s = 0
      then s\<lparr>LEFT_TIM := (LEFT_TIM s)\<lparr>BDTR := BDTR (LEFT_TIM s) AND NOT (TIM_BDTR_MOE cfg)\<rparr>\<rparr>
      else s\<lparr>LEFT_TIM := (LEFT_TIM s)\<lparr>BDTR := BDTR (LEFT_TIM s) OR TIM_BDTR_MOE cfg\<rparr>\<rparr>)"

text \<open>Lines 238 to 243: the margin for the left motor's control type.\<close>

definition left_pwm_margin :: "'dw config \<Rightarrow> 'dw state \<Rightarrow> 'dw state" where
  "left_pwm_margin cfg s =
     (if z_ctrlTypSel (rtP_Left s) = FOC_CTRL cfg
      then s\<lparr>pwm_margin := 110\<rparr>
      else s\<lparr>pwm_margin := 0\<rparr>)"

text \<open>Lines 244 to 255: hall lines, sector history and step counter of the left motor.\<close>

definition left_hall_steps :: "inputs \<Rightarrow> 'dw state \<Rightarrow> 'dw state" where
  "left_hall_steps inp s =
     (let hall_ul = c_not (LEFT_HALL_U inp);
          hall_vl = c_not (LEFT_HALL_V inp);
          hall_wl = c_not (LEFT_HALL_W inp);
          current_posl = hall2pos ! unat hall_ul ! unat hall_vl ! unat hall_wl
      in if current_posl \<noteq> pos s 0 0
         then (let s = (if current_posl \<noteq> pos s 0 1
                        then s\<lparr>steps := (steps s)(0 := steps s 0 + 1)\<rparr>
                        else s);
                   s = s\<lparr>pos := arr2_upd (pos s) 0 1 (pos s 0 0)\<rparr>
               in s\<lparr>pos := arr2_upd (pos s) 0 0 current_posl\<rparr>)
         else s)"

text \<open>Lines 256 to 265: the inputs of the left controller; \<open>pwml\<close> is an \<open>int\<close> stored in 16 bits.\<close>

definition left_motor_inputs :: "inputs \<Rightarrow> 'dw state \<Rightarrow> 'dw state" where
  "left_motor_inputs inp s =
     s\<lparr>rtU_Left := (rtU_Left s)
         \<lparr>b_motEna := enableFin s,
          z_ctrlModReq := ctrlModReq s,
          r_inpTgt := ucast (pwml s),
          b_hallA := c_not (LEFT_HALL_U inp),
          b_hallB := c_not (LEFT_HALL_V inp),
          b_hallC := c_not (LEFT_HALL_W inp),
          i_phaAB := curL_phaA s,
          i_phaBC := curL_phaB s,
          i_DCLink := curL_DC s\<rparr>\<rparr>"

text \<open>Lines 268 to 271: the controller step of the left motor, when it is built in.\<close>

definition left_controller_step :: "'dw config \<Rightarrow> 'dw state \<Rightarrow> 'dw state" where
  "left_controller_step cfg s =
     (if MOTOR_LEFT_ENA cfg
      then (case BLDC_controller_step cfg (rtP_Left s) (rtU_Left s) (rtY_Left s) (DW_Left s) of
              (y, dw) \<Rightarrow> s\<lparr>rtY_Left := y, DW_Left := dw\<rparr>)
      else s)"

text \<open>
  The value written to a compare register: the duty output as a C \<open>int\<close>, centred,
  clamped, converted to \<open>uint16_t\<close> and stored in the 32-bit register
  (the expression of lines 282 to 284 and 351 to 353).
\<close>

definition compare_value :: "'dw config \<Rightarrow> int16_t \<Rightarrow> int16_t \<Rightarrow> uint32_t" where
  "compare_value cfg duty margin =
     ucast (word_of_int
       (CLAMP (sint duty + uint (pwm_res cfg) div 2) (sint margin)
          (uint (pwm_res cfg) - sint margin)) :: uint16_t)"

text \<open>Lines 273 to 284: the duty outputs of the left motor are written to its timer.\<close>

definition left_apply_commands :: "'dw config \<Rightarrow> 'dw state \<Rightarrow> 'dw state" where
  "left_apply_commands cfg s =
     (let ul = DC_phaA (rtY_Left s);
          vl = DC_phaB (rtY_Left s);
          wl = DC_phaC (rtY_Left s);
          s = s\<lparr>LEFT_TIM := (LEFT_TIM s)\<lparr>TIM_U := compare_value cfg ul (pwm_margin s)\<rparr>\<rparr>;
          s = s\<lparr>LEFT_TIM := (LEFT_TIM s)\<lparr>TIM_V := compare_value cfg vl (pwm_margin s)\<rparr>\<rparr>
      in s\<lparr>LEFT_TIM := (LEFT_TIM s)\<lparr>TIM_W := compare_value cfg wl (pwm_margin s)\<rparr>\<rparr>)"

text \<open>Lines 287 to 290.\<close>

definition right_motor_currents :: "inputs \<Rightarrow> 'dw state \<Rightarrow> 'dw state" where
  "right_motor_currents inp s =
     (let s = s\<lparr>curR_phaB := ucast (offsetrrB s - ucast (rrB (adc_buffer inp)))\<rparr>;
          s = s\<lparr>curR_phaC := ucast (offsetrrC s - ucast (rrC (adc_buffer inp)))\<rparr>
      in s\<lparr>curR_DC := ucast (offsetdcr s - ucast (dcr (adc_buffer inp)))\<rparr>)"

text \<open>Lines 292 to 299: current chopping of the right timer.\<close>

definition right_current_chopping :: "'dw config \<Rightarrow> 'dw state \<Rightarrow> 'dw state" where
  "right_current_chopping cfg s =
     (if ABS (sint (curR_DC s)) > sint (curDC_max cfg) \<or> enable s = 0
      then s\<lparr>RIGHT_TIM := (RIGHT_TIM s)\<lparr>BDTR := BDTR (RIGHT_TIM s) AND NOT (TIM_BDTR_MOE cfg)\<rparr>\<rparr>
      else s\<lparr>RIGHT_TIM := (RIGHT_TIM s)\<lparr>BDTR := BDTR (RIGHT_TIM s) OR TIM_BDTR_MOE cfg\<rparr>\<rparr>)"

text \<open>Lines 305 to 311.\<close>

definition right_pwm_margin :: "'dw config \<Rightarrow> 'dw state \<Rightarrow> 'dw state" where
  "right_pwm_margin cfg s =
     (if z_ctrlTypSel (rtP_Right s) = FOC_CTRL cfg
      then s\<lparr>pwm_margin := 110\<rparr>
      else s\<lparr>pwm_margin := 0\<rparr>)"

text \<open>Lines 312 to 323: hall lines, sector history and step counter of the right motor.\<close>

definition right_hall_steps :: "inputs \<Rightarrow> 'dw state \<Rightarrow> 'dw state" where
  "right_hall_steps inp s =
     (let hall_ur = c_not (RIGHT_HALL_U inp);
          hall_vr = c_not (RIGHT_HALL_V inp);
          hall_wr = c_not (RIGHT_HALL_W inp);
          current_posr = hall2pos ! unat hall_ur ! unat hall_vr ! unat hall_wr
      in if current_posr \<noteq> pos s 1 0
         then (let s = (if current_posr \<noteq> pos s 1 1
                        then s\<lparr>steps := (steps s)(1 := steps s 1 + 1)\<rparr>
                        else s);
                   s = s\<lparr>pos := arr2_upd (pos s) 1 1 (pos s 1 0)\<rparr>
               in s\<lparr>pos := arr2_upd (pos s) 1 0 current_posr\<rparr>)
         else s)"

text \<open>Lines 325 to 334.\<close>

definition right_motor_inputs :: "inputs \<Rightarrow> 'dw state \<Rightarrow> 'dw state" where
  "right_motor_inputs inp s =
     s\<lparr>rtU_Right := (rtU_Right s)
         \<lparr>b_motEna := enableFin s,
          z_ctrlModReq := ctrlModReq s,
          r_inpTgt := ucast (pwmr s),
          b_hallA := c_not (RIGHT_HALL_U inp),
          b_hallB := c_not (RIGHT_HALL_V inp),
          b_hallC := c_not (RIGHT_HALL_W inp),
          i_phaAB := curR_phaB s,
          i_phaBC := curR_phaC s,
          i_DCLink := curR_DC s\<rparr>\<rparr>"

text \<open>Lines 337 to 340.\<close>

definition right_controller_step :: "'dw config \<Rightarrow> 'dw state \<Rightarrow> 'dw state" where
  "right_controller_step cfg s =
     (if MOTOR_RIGHT_ENA cfg
      then (case BLDC_controller_step cfg (rtP_Right s) (rtU_Right s) (rtY_Right s) (DW_Right s) of
              (y, dw) \<Rightarrow> s\<lparr>rtY_Right := y, DW_Right := dw\<rparr>)
      else s)"

text \<open>Lines 342 to 353.\<close>

definition right_apply_commands :: "'dw config \<Rightarrow> 'dw state \<Rightarrow> 'dw state" where
  "right_apply_commands cfg s =
     (let ur = DC_phaA (rtY_Right s);
          vr = DC_phaB (rtY_Right s);
          wr = DC_phaC (rtY_Right s);
          s = s\<lparr>RIGHT_TIM := (RIGHT_TIM s)\<lparr>TIM_U := compare_value cfg ur (pwm_margin s)\<rparr>\<rparr>;
          s = s\<lparr>RIGHT_TIM := (RIGHT_TIM s)\<lparr>TIM_V := compare_value cfg vr (pwm_margin s)\<rparr>\<rparr>
      in s\<lparr>RIGHT_TIM := (RIGHT_TIM s)\<lparr>TIM_W := compare_value cfg wr (pwm_margin s)\<rparr>\<rparr>)"

text \<open>The whole of \<open>bldc_control\<close>: the blocks in source order.\<close>

definition bldc_control :: "'dw config \<Rightarrow> inputs \<Rightarrow> 'dw state \<Rightarrow> 'dw state" where
  "bldc_control cfg inp s =
     (let s = enable_fault_gate s;
          s = left_motor_currents inp s;
          s = left_current_chopping cfg s;
          s = left_pwm_margin cfg s;
          s = left_hall_steps inp s;
          s = left_motor_inputs inp s;
          s = left_controller_step cfg s;
          s = left_apply_commands cfg s;
          s = right_motor_currents inp s;
          s = right_current_chopping cfg s;
          s = right_pwm_margin cfg s;
          s = right_hall_steps inp s;
          s = right_motor_inputs inp s;
          s = right_controller_step cfg s
      in right_apply_commands cfg s)"

section \<open>Overrun guard and tick dispatcher\<close>

text \<open>A call through a function pointer of type \<open>IsrPtr\<close>; \<open>nullFunc\<close> (line 101) does nothing.\<close>

definition call_IsrPtr :: "'dw config \<Rightarrow> IsrPtr \<Rightarrow> inputs \<Rightarrow> 'dw state \<Rightarrow> 'dw state" where
  "call_IsrPtr cfg f inp s =
     (case f of
        Isr_nullFunc \<Rightarrow> s
      | Isr_calibration_func \<Rightarrow> calibration_func cfg inp s
      | Isr_bldc_control \<Rightarrow> bldc_control cfg inp s)"

text \<open>
  The square wave of the buzzer, lines 192 to 206.  \<open>buzzerPattern + 1\<close> and
  \<open>buzzerCount + 2\<close> are computed in \<open>int\<close> and cannot wrap; \<open>++buzzerIdx\<close> wraps in 8 bits.
\<close>

definition buzzer_square_wave :: "'dw state \<Rightarrow> 'dw state" where
  "buzzer_square_wave s =
     (let s = s\<lparr>buzzerTimer := buzzerTimer s + 1\<rparr>
      in if buzzerFreq s \<noteq> 0 \<and> (buzzerTimer s div 5000) mod (ucast (buzzerPattern s) + 1) = 0
         then (let s = (if buzzerPrev s = 0
                        then (let s = s\<lparr>buzzerPrev := 1\<rparr>;
                                  s = s\<lparr>buzzerIdx := buzzerIdx s + 1\<rparr>
                              in if uint (buzzerIdx s) > uint (buzzerCount s) + 2
                                 then s\<lparr>buzzerIdx := 1\<rparr> else s)
                        else s)
               in if buzzerTimer s mod ucast (buzzerFreq s) = 0
                     \<and> (buzzerIdx s \<le> buzzerCount s \<or> buzzerCount s = 0)
                  then s\<lparr>BUZZER_PIN := \<not> BUZZER_PIN s\<rparr> else s)
         else if buzzerPrev s \<noteq> 0
         then (let s = s\<lparr>BUZZER_PIN := False\<rparr> in s\<lparr>buzzerPrev := 0\<rparr>)
         else s)"

text \<open>The slow battery-voltage filter, lines 212 to 215; \<open>>>\<close> on the signed value is arithmetic.\<close>

definition battery_filter :: "'dw config \<Rightarrow> inputs \<Rightarrow> 'dw state \<Rightarrow> 'dw state" where
  "battery_filter cfg inp s =
     (if buzzerTimer s mod 1000 = 0
      then (let s = s\<lparr>batVoltageFixdt :=
                        filtLowPass32 cfg (ucast (batt1 (adc_buffer inp))) (BAT_FILT_COEF cfg) (batVoltageFixdt s)\<rparr>
            in s\<lparr>batVoltage := ucast (signed_drop_bit 16 (batVoltageFixdt s))\<rparr>)
      else s)"

text \<open>\<open>DMA1_Channel1_IRQHandler\<close>, lines 176 to 216.\<close>

definition DMA1_Channel1_IRQHandler :: "'dw config \<Rightarrow> inputs \<Rightarrow> 'dw state \<Rightarrow> 'dw state" where
  "DMA1_Channel1_IRQHandler cfg inp s =
     (let s = s\<lparr>DMA1_IFCR := DMA_IFCR_CTCIF1 cfg\<rparr>;
          s = s\<lparr>mainCounter := mainCounter s + 1\<rparr>
      in if OverrunFlag s then s
         else (let s = s\<lparr>OverrunFlag := True\<rparr>;
                   s = call_IsrPtr cfg (timer_brushless s) inp s;
                   s = s\<lparr>OverrunFlag := False\<rparr>;
                   s = call_IsrPtr cfg (buzzerFunc s) inp s;
                   s = buzzer_square_wave s
               in battery_filter cfg inp s))"

text \<open>A run of interrupt invocations, one per element of the list of hardware inputs.\<close>

fun run_ticks :: "'dw config \<Rightarrow> inputs list \<Rightarrow> 'dw state \<Rightarrow> 'dw state" where
  "run_ticks cfg [] s = s"
| "run_ticks cfg (inp # ins) s = run_ticks cfg ins (DMA1_Channel1_IRQHandler cfg inp s)"



section \<open>Reference values\<close>

text \<open>
  A configuration, a start-up state and hardware inputs on which the theorems below are
  instantiated: a PWM period of 2000, a sample target of 4, a controller step that keeps
  its outputs, and every global at zero with both function pointers at \<open>nullFunc\<close>.
\<close>

definition reference_config :: "unit config" where
  "reference_config =
     \<lparr>CALIBRATION_SAMPLES = 4, curDC_max = 1500, pwm_res = 2000, FOC_CTRL = 2,
      TIM_BDTR_MOE = 0x8000, DMA_IFCR_CTCIF1 = 2, BAT_FILT_COEF = 655,
      MOTOR_LEFT_ENA = True, MOTOR_RIGHT_ENA = True,
      BLDC_controller_step = (\<lambda>p u y dw. (y, dw)),
      filtLowPass32 = (\<lambda>u coef y. y)\<rparr>"

definition reset_state :: "unit state" where
  "reset_state =
     \<lparr>offsetrlA = 0, offsetrlB = 0, offsetrrB = 0, offsetrrC = 0, offsetdcl = 0, offsetdcr = 0,
      pwm_margin = 0, curL_phaA = 0, curL_phaB = 0, curL_DC = 0,
      curR_phaB = 0, curR_phaC = 0, curR_DC = 0,
      steps = (\<lambda>i. 0), pos = (\<lambda>i j. 0), pwml = 0, pwmr = 0, ctrlModReq = 0,
      buzzerFreq = 0, buzzerPattern = 0, buzzerCount = 0, buzzerTimer = 0,
      buzzerPrev = 0, buzzerIdx = 0, BUZZER_PIN = False, enable = 0, enableFin = 0,
      mainCounter = 0, batVoltage = 0, batVoltageFixdt = 0,
      timer_brushless = Isr_nullFunc, buzzerFunc = Isr_nullFunc, OverrunFlag = False,
      rtP_Left = \<lparr>z_ctrlTypSel = 2\<rparr>,
      rtU_Left = \<lparr>b_motEna = 0, z_ctrlModReq = 0, r_inpTgt = 0, b_hallA = 0, b_hallB = 0,
                  b_hallC = 0, i_phaAB = 0, i_phaBC = 0, i_DCLink = 0\<rparr>,
      rtY_Left = \<lparr>DC_phaA = 0, DC_phaB = 0, DC_phaC = 0, z_errCode = 0\<rparr>,
      DW_Left = (),
      rtP_Right = \<lparr>z_ctrlTypSel = 2\<rparr>,
      rtU_Right = \<lparr>b_motEna = 0, z_ctrlModReq = 0, r_inpTgt = 0, b_hallA = 0, b_hallB = 0,
                   b_hallC = 0, i_phaAB = 0, i_phaBC = 0, i_DCLink = 0\<rparr>,
      rtY_Right = \<lparr>DC_phaA = 0, DC_phaB = 0, DC_phaC = 0, z_errCode = 0\<rparr>,
      DW_Right = (),
      LEFT_TIM = \<lparr>BDTR = 0, TIM_U = 0, TIM_V = 0, TIM_W = 0\<rparr>,
      RIGHT_TIM = \<lparr>BDTR = 0, TIM_U = 0, TIM_V = 0, TIM_W = 0\<rparr>,
      DMA1_IFCR = 0\<rparr>"

definition const_inputs :: "bool \<Rightarrow> bool \<Rightarrow> bool \<Rightarrow> uint16_t \<Rightarrow> inputs" where
  "const_inputs u v w x =
     \<lparr>LEFT_HALL_U = u, LEFT_HALL_V = v, LEFT_HALL_W = w,
      RIGHT_HALL_U = u, RIGHT_HALL_V = v, RIGHT_HALL_W = w,
      adc_buffer = \<lparr>rlA = x, rlB = x, rrB = x, rrC = x, dcl = x, dcr = x, batt1 = x\<rparr>\<rparr>"

text \<open>The equations that give the state after each block of \<open>bldc_control\<close>.\<close>

named_theorems blk

section \<open>The state after each function\<close>

lemma hall2pos_cases:
  "hall2pos ! unat (c_not a) ! unat (c_not b) ! unat (c_not c) =
     (if a then (if b then (if c then 6 else 2) else (if c then 4 else 3))
      else (if b then (if c then 0 else 1) else (if c then 5 else 6)))"
  by (simp add: hall2pos_def c_not_def)


lemma enable_fault_gate_nf [blk]:
  "enable_fault_gate s = s\<lparr>enableFin :=
         (if enable s \<noteq> 0 \<and> z_errCode (rtY_Left s) = 0 \<and> z_errCode (rtY_Right s) = 0
          then 1 else 0)\<rparr>"
  by (simp add: enable_fault_gate_def)

lemma left_motor_currents_nf [blk]:
  "left_motor_currents inp s =
     s\<lparr>curL_phaA := ucast (offsetrlA s - ucast (rlA (adc_buffer inp))),
       curL_phaB := ucast (offsetrlB s - ucast (rlB (adc_buffer inp))),
       curL_DC := ucast (offsetdcl s - ucast (dcl (adc_buffer inp)))\<rparr>"
  by (simp add: left_motor_currents_def Let_def)

lemma left_current_chopping_nf [blk]:
  "left_current_chopping cfg s =
     s\<lparr>LEFT_TIM := (LEFT_TIM s)\<lparr>BDTR :=
        (if ABS (sint (curL_DC s)) > sint (curDC_max cfg) \<or> enable s = 0
         then BDTR (LEFT_TIM s) AND NOT (TIM_BDTR_MOE cfg)
         else BDTR (LEFT_TIM s) OR TIM_BDTR_MOE cfg)\<rparr>\<rparr>"
  by (simp add: left_current_chopping_def)

lemma left_pwm_margin_nf [blk]:
  "left_pwm_margin cfg s =
     s\<lparr>pwm_margin := (if z_ctrlTypSel (rtP_Left s) = FOC_CTRL cfg then 110 else 0)\<rparr>"
  by (simp add: left_pwm_margin_def)

lemma left_hall_steps_nf [blk]:
  "left_hall_steps inp s =
     s\<lparr>steps := (if current_posl inp \<noteq> pos s 0 0 \<and> current_posl inp \<noteq> pos s 0 1
                  then (steps s)(0 := steps s 0 + 1) else steps s),
       pos := (if current_posl inp \<noteq> pos s 0 0
               then arr2_upd (arr2_upd (pos s) 0 1 (pos s 0 0)) 0 0 (current_posl inp)
               else pos s)\<rparr>"
  by (simp add: left_hall_steps_def current_posl_def Let_def)

lemma left_motor_inputs_nf [blk]:
  "left_motor_inputs inp s =
     s\<lparr>rtU_Left := (rtU_Left s)
         \<lparr>b_motEna := enableFin s,
          z_ctrlModReq := ctrlModReq s,
          r_inpTgt := ucast (pwml s),
          b_hallA := c_not (LEFT_HALL_U inp),
          b_hallB := c_not (LEFT_HALL_V inp),
          b_hallC := c_not (LEFT_HALL_W inp),
          i_phaAB := curL_phaA s,
          i_phaBC := curL_phaB s,
          i_DCLink := curL_DC s\<rparr>\<rparr>"
  by (simp add: left_motor_inputs_def)

lemma left_controller_step_nf [blk]:
  "left_controller_step cfg s =
     s\<lparr>rtY_Left := (if MOTOR_LEFT_ENA cfg
          then fst (BLDC_controller_step cfg (rtP_Left s) (rtU_Left s) (rtY_Left s) (DW_Left s))
          else rtY_Left s),
       DW_Left := (if MOTOR_LEFT_ENA cfg
          then snd (BLDC_controller_step cfg (rtP_Left s) (rtU_Left s) (rtY_Left s) (DW_Left s))
          else DW_Left s)\<rparr>"
  by (simp add: left_controller_step_def split: prod.split)

lemma left_apply_commands_nf [blk]:
  "left_apply_commands cfg s =
     s\<lparr>LEFT_TIM := (LEFT_TIM s)
        \<lparr>TIM_U := compare_value cfg (DC_phaA (rtY_Left s)) (pwm_margin s),
         TIM_V := compare_value cfg (DC_phaB (rtY_Left s)) (pwm_margin s),
         TIM_W := compare_value cfg (DC_phaC (rtY_Left s)) (pwm_margin s)\<rparr>\<rparr>"
  by (simp add: left_apply_commands_def Let_def)

lemma right_motor_currents_nf [blk]:
  "right_motor_currents inp s =
     s\<lparr>curR_phaB := ucast (offsetrrB s - ucast (rrB (adc_buffer inp))),
       curR_phaC := ucast (offsetrrC s - ucast (rrC (adc_buffer inp))),
       curR_DC := ucast (offsetdcr s - ucast (dcr (adc_buffer inp)))\<rparr>"
  by (simp add: right_motor_currents_def Let_def)

lemma right_current_chopping_nf [blk]:
  "right_current_chopping cfg s =
     s\<lparr>RIGHT_TIM := (RIGHT_TIM s)\<lparr>BDTR :=
        (if ABS (sint (curR_DC s)) > sint (curDC_max cfg) \<or> enable s = 0
         then BDTR (RIGHT_TIM s) AND NOT (TIM_BDTR_MOE cfg)
         else BDTR (RIGHT_TIM s) OR TIM_BDTR_MOE cfg)\<rparr>\<rparr>"
  by (simp add: right_current_chopping_def)

lemma right_pwm_margin_nf [blk]:
  "right_pwm_margin cfg s =
     s\<lparr>pwm_margin := (if z_ctrlTypSel (rtP_Right s) = FOC_CTRL cfg then 110 else 0)\<rparr>"
  by (simp add: right_pwm_margin_def)

lemma right_hall_steps_nf [blk]:
  "right_hall_steps inp s =
     s\<lparr>steps := (if current_posr inp \<noteq> pos s 1 0 \<and> current_posr inp \<noteq> pos s 1 1
                  then (steps s)(1 := steps s 1 + 1) else steps s),
       pos := (if current_posr inp \<noteq> pos s 1 0
               then arr2_upd (arr2_upd (pos s) 1 1 (pos s 1 0)) 1 0 (current_posr inp)
               else pos s)\<rparr>"
  by (simp add: right_hall_steps_def current_posr_def Let_def)

lemma right_motor_inputs_nf [blk]:
  "right_motor_inputs inp s =
     s\<lparr>rtU_Right := (rtU_Right s)
         \<lparr>b_motEna := enableFin s,
          z_ctrlModReq := ctrlModReq s,
          r_inpTgt := ucast (pwmr s),
          b_hallA := c_not (RIGHT_HALL_U inp),
          b_hallB := c_not (RIGHT_HALL_V inp),
          b_hallC := c_not (RIGHT_HALL_W inp),
          i_phaAB := curR_phaB s,
          i_phaBC := curR_phaC s,
          i_DCLink := curR_DC s\<rparr>\<rparr>"
  by (simp add: right_motor_inputs_def)

lemma right_controller_step_nf [blk]:
  "right_controller_step cfg s =
     s\<lparr>rtY_Right := (if MOTOR_RIGHT_ENA cfg
          then fst (BLDC_controller_step cfg (rtP_Right s) (rtU_Right s) (rtY_Right s) (DW_Right s))
          else rtY_Right s),
       DW_Right := (if MOTOR_RIGHT_ENA cfg
          then snd (BLDC_controller_step cfg (rtP_Right s) (rtU_Right s) (rtY_Right s) (DW_Right s))
          else DW_Right s)\<rparr>"
  by (simp add: right_controller_step_def split: prod.split)

lemma right_apply_commands_nf [blk]:
  "right_apply_commands cfg s =
     s\<lparr>RIGHT_TIM := (RIGHT_TIM s)
        \<lparr>TIM_U := compare_value cfg (DC_phaA (rtY_Right s)) (pwm_margin s),
         TIM_V := compare_value cfg (DC_phaB (rtY_Right s)) (pwm_margin s),
         TIM_W := compare_value cfg (DC_phaC (rtY_Right s)) (pwm_margin s)\<rparr>\<rparr>"
  by (simp add: right_apply_commands_def Let_def)





lemma bldc_control_comp:
  "bldc_control cfg inp s =
     right_apply_commands cfg (right_controller_step cfg (right_motor_inputs inp
       (right_hall_steps inp (right_pwm_margin cfg (right_current_chopping cfg
         (right_motor_currents inp (left_apply_commands cfg (left_controller_step cfg
           (left_motor_inputs inp (left_hall_steps inp (left_pwm_margin cfg
             (left_current_chopping cfg (left_motor_currents inp (enable_fault_gate s))))))))))))))"
  unfolding bldc_control_def Let_def by (rule refl)

lemma left_chain:
  fixes cfg :: "'dw config" and inp :: inputs and s :: "'dw state"
  defines "cA \<equiv> ucast (offsetrlA s - ucast (rlA (adc_buffer inp))) :: int16_t"
    and "cB \<equiv> ucast (offsetrlB s - ucast (rlB (adc_buffer inp))) :: int16_t"
    and "cD \<equiv> ucast (offsetdcl s - ucast (dcl (adc_buffer inp))) :: int16_t"
    and "m \<equiv> (if z_ctrlTypSel (rtP_Left s) = FOC_CTRL cfg then 110 else 0) :: int16_t"
  defines "U \<equiv> (rtU_Left s)
         \<lparr>b_motEna := enableFin s,
          z_ctrlModReq := ctrlModReq s,
          r_inpTgt := ucast (pwml s),
          b_hallA := c_not (LEFT_HALL_U inp),
          b_hallB := c_not (LEFT_HALL_V inp),
          b_hallC := c_not (LEFT_HALL_W inp),
          i_phaAB := cA, i_phaBC := cB, i_DCLink := cD\<rparr>"
  defines "Y \<equiv> (if MOTOR_LEFT_ENA cfg
          then fst (BLDC_controller_step cfg (rtP_Left s) U (rtY_Left s) (DW_Left s))
          else rtY_Left s)"
    and "D \<equiv> (if MOTOR_LEFT_ENA cfg
          then snd (BLDC_controller_step cfg (rtP_Left s) U (rtY_Left s) (DW_Left s))
          else DW_Left s)"
  shows "left_apply_commands cfg (left_controller_step cfg (left_motor_inputs inp
     (left_hall_steps inp (left_pwm_margin cfg (left_current_chopping cfg
        (left_motor_currents inp s)))))) =
     s\<lparr>curL_phaA := cA, curL_phaB := cB, curL_DC := cD,
       LEFT_TIM := (LEFT_TIM s)
         \<lparr>BDTR := (if ABS (sint cD) > sint (curDC_max cfg) \<or> enable s = 0
                   then BDTR (LEFT_TIM s) AND NOT (TIM_BDTR_MOE cfg)
                   else BDTR (LEFT_TIM s) OR TIM_BDTR_MOE cfg),
          TIM_U := compare_value cfg (DC_phaA Y) m,
          TIM_V := compare_value cfg (DC_phaB Y) m,
          TIM_W := compare_value cfg (DC_phaC Y) m\<rparr>,
       pwm_margin := m,
       steps := (if current_posl inp \<noteq> pos s 0 0 \<and> current_posl inp \<noteq> pos s 0 1
                  then (steps s)(0 := steps s 0 + 1) else steps s),
       pos := (if current_posl inp \<noteq> pos s 0 0
               then arr2_upd (arr2_upd (pos s) 0 1 (pos s 0 0)) 0 0 (current_posl inp)
               else pos s),
       rtU_Left := U, rtY_Left := Y, DW_Left := D\<rparr>"
  unfolding cA_def cB_def cD_def m_def U_def Y_def D_def
  by (simp add: blk)

lemma right_chain:
  fixes cfg :: "'dw config" and inp :: inputs and s :: "'dw state"
  defines "cA \<equiv> ucast (offsetrrB s - ucast (rrB (adc_buffer inp))) :: int16_t"
    and "cB \<equiv> ucast (offsetrrC s - ucast (rrC (adc_buffer inp))) :: int16_t"
    and "cD \<equiv> ucast (offsetdcr s - ucast (dcr (adc_buffer inp))) :: int16_t"
    and "m \<equiv> (if z_ctrlTypSel (rtP_Right s) = FOC_CTRL cfg then 110 else 0) :: int16_t"
  defines "U \<equiv> (rtU_Right s)
         \<lparr>b_motEna := enableFin s,
          z_ctrlModReq := ctrlModReq s,
          r_inpTgt := ucast (pwmr s),
          b_hallA := c_not (RIGHT_HALL_U inp),
          b_hallB := c_not (RIGHT_HALL_V inp),
          b_hallC := c_not (RIGHT_HALL_W inp),
          i_phaAB := cA, i_phaBC := cB, i_DCLink := cD\<rparr>"
  defines "Y \<equiv> (if MOTOR_RIGHT_ENA cfg
          then fst (BLDC_controller_step cfg (rtP_Right s) U (rtY_Right s) (DW_Right s))
          else rtY_Right s)"
    and "D \<equiv> (if MOTOR_RIGHT_ENA cfg
          then snd (BLDC_controller_step cfg (rtP_Right s) U (rtY_Right s) (DW_Right s))
          else DW_Right s)"
  shows "right_apply_commands cfg (right_controller_step cfg (right_motor_inputs inp
     (right_hall_steps inp (right_pwm_margin cfg (right_current_chopping cfg
        (right_motor_currents inp s)))))) =
     s\<lparr>curR_phaB := cA, curR_phaC := cB, curR_DC := cD,
       RIGHT_TIM := (RIGHT_TIM s)
         \<lparr>BDTR := (if ABS (sint cD) > sint (curDC_max cfg) \<or> enable s = 0
                   then BDTR (RIGHT_TIM s) AND NOT (TIM_BDTR_MOE cfg)
                   else BDTR (RIGHT_TIM s) OR TIM_BDTR_MOE cfg),
          TIM_U := compare_value cfg (DC_phaA Y) m,
          TIM_V := compare_value cfg (DC_phaB Y) m,
          TIM_W := compare_value cfg (DC_phaC Y) m\<rparr>,
       pwm_margin := m,
       steps := (if current_posr inp \<noteq> pos s 1 0 \<and> current_posr inp \<noteq> pos s 1 1
                  then (steps s)(1 := steps s 1 + 1) else steps s),
       pos := (if current_posr inp \<noteq> pos s 1 0
               then arr2_upd (arr2_upd (pos s) 1 1 (pos s 1 0)) 1 0 (current_posr inp)
               else pos s),
       rtU_Right := U, rtY_Right := Y, DW_Right := D\<rparr>"
  unfolding cA_def cB_def cD_def m_def U_def Y_def D_def
  by (simp add: blk)

lemmas bc_nf = bldc_control_comp left_chain right_chain enable_fault_gate_nf



lemma compare_value_sat:
  assumes "0 \<le> sint m" "2 * sint m \<le> uint (pwm_res cfg)"
  shows "uint (compare_value cfg d m) =
     max (sint m) (min (uint (pwm_res cfg) - sint m) (sint d + uint (pwm_res cfg) div 2))"
proof -
  let ?P = "uint (pwm_res cfg)"
  let ?r = "CLAMP (sint d + ?P div 2) (sint m) (?P - sint m)"
  have P: "?P < 65536" using uint_bounded [of "pwm_res cfg"] by simp
  have r: "?r = max (sint m) (min (?P - sint m) (sint d + ?P div 2))"
    using assms by (simp add: CLAMP_def max_def min_def)
  have lo: "0 \<le> ?r" and hi: "?r < 65536"
    using assms P unfolding r by (simp_all add: max_def min_def)
  have "uint (word_of_int ?r :: uint16_t) = ?r"
    using lo hi by (simp add: uint_word_of_int take_bit_int_eq_self)
  then have "uint (compare_value cfg d m) = ?r"
    by (simp add: compare_value_def uint_up_ucast is_up)
  then show ?thesis using r by simp
qed

lemma moe_cleared: "(x AND NOT m) AND m = (0 :: uint32_t)"
  by (simp add: and.assoc)

lemma moe_set: "(x OR m) AND m = (m :: uint32_t)"
  by (rule bit_eqI) (auto simp: bit_simps)

lemma bc_BDTR_Left:
  "BDTR (LEFT_TIM (bldc_control cfg inp s)) =
     (if ABS (sint (curL_DC (bldc_control cfg inp s))) > sint (curDC_max cfg) \<or> enable s = 0
         then BDTR (LEFT_TIM s) AND NOT (TIM_BDTR_MOE cfg)
         else BDTR (LEFT_TIM s) OR TIM_BDTR_MOE cfg)"
  by (simp add: bc_nf)

lemma bc_BDTR_Right:
  "BDTR (RIGHT_TIM (bldc_control cfg inp s)) =
     (if ABS (sint (curR_DC (bldc_control cfg inp s))) > sint (curDC_max cfg) \<or> enable s = 0
         then BDTR (RIGHT_TIM s) AND NOT (TIM_BDTR_MOE cfg)
         else BDTR (RIGHT_TIM s) OR TIM_BDTR_MOE cfg)"
  by (simp add: bc_nf)

lemma bc_cur_DC:
  "curL_DC (bldc_control cfg inp s) = ucast (offsetdcl s - ucast (dcl (adc_buffer inp)))"
  "curR_DC (bldc_control cfg inp s) = ucast (offsetdcr s - ucast (dcr (adc_buffer inp)))"
  by (simp_all add: bc_nf)

lemma bc_steps:
  "steps (bldc_control cfg inp s) 0 =
     (if current_posl inp \<noteq> pos s 0 0 \<and> current_posl inp \<noteq> pos s 0 1
      then steps s 0 + 1 else steps s 0)"
  "steps (bldc_control cfg inp s) 1 =
     (if current_posr inp \<noteq> pos s 1 0 \<and> current_posr inp \<noteq> pos s 1 1
      then steps s 1 + 1 else steps s 1)"
  by (simp_all add: bc_nf arr2_upd_def)

lemma bc_pos:
  "pos (bldc_control cfg inp s) 0 0 = current_posl inp"
  "pos (bldc_control cfg inp s) 0 1 =
     (if current_posl inp \<noteq> pos s 0 0 then pos s 0 0 else pos s 0 1)"
  "pos (bldc_control cfg inp s) 1 0 = current_posr inp"
  "pos (bldc_control cfg inp s) 1 1 =
     (if current_posr inp \<noteq> pos s 1 0 then pos s 1 0 else pos s 1 1)"
  by (simp_all add: bc_nf arr2_upd_def)

lemma bc_rtY:
  "rtY_Left (bldc_control cfg inp s) =
     (if MOTOR_LEFT_ENA cfg
      then fst (BLDC_controller_step cfg (rtP_Left s) (rtU_Left (bldc_control cfg inp s))
                  (rtY_Left s) (DW_Left s))
      else rtY_Left s)"
  "rtY_Right (bldc_control cfg inp s) =
     (if MOTOR_RIGHT_ENA cfg
      then fst (BLDC_controller_step cfg (rtP_Right s) (rtU_Right (bldc_control cfg inp s))
                  (rtY_Right s) (DW_Right s))
      else rtY_Right s)"
  by (simp_all add: bc_nf)

lemma bc_TIM_Left:
  "TIM_U (LEFT_TIM (bldc_control cfg inp s)) =
     compare_value cfg (DC_phaA (rtY_Left (bldc_control cfg inp s)))
       (if z_ctrlTypSel (rtP_Left s) = FOC_CTRL cfg then 110 else 0)"
  "TIM_V (LEFT_TIM (bldc_control cfg inp s)) =
     compare_value cfg (DC_phaB (rtY_Left (bldc_control cfg inp s)))
       (if z_ctrlTypSel (rtP_Left s) = FOC_CTRL cfg then 110 else 0)"
  "TIM_W (LEFT_TIM (bldc_control cfg inp s)) =
     compare_value cfg (DC_phaC (rtY_Left (bldc_control cfg inp s)))
       (if z_ctrlTypSel (rtP_Left s) = FOC_CTRL cfg then 110 else 0)"
  by (simp_all add: bc_nf)

lemma bc_TIM_Right:
  "TIM_U (RIGHT_TIM (bldc_control cfg inp s)) =
     compare_value cfg (DC_phaA (rtY_Right (bldc_control cfg inp s)))
       (if z_ctrlTypSel (rtP_Right s) = FOC_CTRL cfg then 110 else 0)"
  "TIM_V (RIGHT_TIM (bldc_control cfg inp s)) =
     compare_value cfg (DC_phaB (rtY_Right (bldc_control cfg inp s)))
       (if z_ctrlTypSel (rtP_Right s) = FOC_CTRL cfg then 110 else 0)"
  "TIM_W (RIGHT_TIM (bldc_control cfg inp s)) =
     compare_value cfg (DC_phaC (rtY_Right (bldc_control cfg inp s)))
       (if z_ctrlTypSel (rtP_Right s) = FOC_CTRL cfg then 110 else 0)"
  by (simp_all add: bc_nf)


lemma bc_enableFin:
  "enableFin (bldc_control cfg inp s) =
     (if enable s \<noteq> 0 \<and> z_errCode (rtY_Left s) = 0 \<and> z_errCode (rtY_Right s) = 0 then 1 else 0)"
  by (simp add: bc_nf)

lemma bc_motEna_Left:
  "b_motEna (rtU_Left (bldc_control cfg inp s)) = enableFin (bldc_control cfg inp s)"
  by (simp add: bc_nf)

lemma bc_motEna_Right:
  "b_motEna (rtU_Right (bldc_control cfg inp s)) = enableFin (bldc_control cfg inp s)"
  by (simp add: bc_nf)

lemma compare_value_margin:
  fixes cfg :: "'dw config"
  assumes "(if c then 220 else 0) \<le> uint (pwm_res cfg)"
  shows "uint (compare_value cfg d (if c then 110 else 0)) =
           max (if c then 110 else 0)
             (min (uint (pwm_res cfg) - (if c then 110 else 0)) (sint d + uint (pwm_res cfg) div 2))"
    and "(if c then 110 else 0) \<le> uint (compare_value cfg d (if c then 110 else 0))"
    and "uint (compare_value cfg d (if c then 110 else 0)) \<le> uint (pwm_res cfg) - (if c then 110 else 0)"
proof -
  let ?m = "(if c then 110 else 0) :: int16_t"
  have m: "sint ?m = (if c then 110 else 0)" by simp
  have "0 \<le> sint ?m" "2 * sint ?m \<le> uint (pwm_res cfg)"
    using assms by (simp_all split: if_splits)
  from compare_value_sat [OF this, of d]
  have eq: "uint (compare_value cfg d ?m) =
      max (sint ?m) (min (uint (pwm_res cfg) - sint ?m) (sint d + uint (pwm_res cfg) div 2))" .
  show "uint (compare_value cfg d (if c then 110 else 0)) =
           max (if c then 110 else 0)
             (min (uint (pwm_res cfg) - (if c then 110 else 0)) (sint d + uint (pwm_res cfg) div 2))"
    using eq unfolding m .
  then show "(if c then 110 else 0) \<le> uint (compare_value cfg d (if c then 110 else 0))"
    and "uint (compare_value cfg d (if c then 110 else 0)) \<le> uint (pwm_res cfg) - (if c then 110 else 0)"
    using assms by (simp_all split: if_splits)
qed

subsection \<open>Calibration and the interrupt handler, tick by tick\<close>

lemma buzzer_square_wave_frame:
  "mainCounter (buzzer_square_wave s) = mainCounter s
   \<and> offsetrlA (buzzer_square_wave s) = offsetrlA s
   \<and> offsetrlB (buzzer_square_wave s) = offsetrlB s
   \<and> offsetrrB (buzzer_square_wave s) = offsetrrB s
   \<and> offsetrrC (buzzer_square_wave s) = offsetrrC s
   \<and> offsetdcl (buzzer_square_wave s) = offsetdcl s
   \<and> offsetdcr (buzzer_square_wave s) = offsetdcr s
   \<and> pos (buzzer_square_wave s) = pos s
   \<and> timer_brushless (buzzer_square_wave s) = timer_brushless s
   \<and> buzzerFunc (buzzer_square_wave s) = buzzerFunc s
   \<and> OverrunFlag (buzzer_square_wave s) = OverrunFlag s"
  by (simp add: buzzer_square_wave_def Let_def)

lemma battery_filter_frame:
  "mainCounter (battery_filter cfg inp s) = mainCounter s
   \<and> offsetrlA (battery_filter cfg inp s) = offsetrlA s
   \<and> offsetrlB (battery_filter cfg inp s) = offsetrlB s
   \<and> offsetrrB (battery_filter cfg inp s) = offsetrrB s
   \<and> offsetrrC (battery_filter cfg inp s) = offsetrrC s
   \<and> offsetdcl (battery_filter cfg inp s) = offsetdcl s
   \<and> offsetdcr (battery_filter cfg inp s) = offsetdcr s
   \<and> pos (battery_filter cfg inp s) = pos s
   \<and> timer_brushless (battery_filter cfg inp s) = timer_brushless s
   \<and> buzzerFunc (battery_filter cfg inp s) = buzzerFunc s
   \<and> OverrunFlag (battery_filter cfg inp s) = OverrunFlag s"
  by (simp add: battery_filter_def Let_def)

lemma bldc_start_calibration_nf:
  "bldc_start_calibration inp s =
     s\<lparr>mainCounter := 0, offsetrlA := 0, offsetrlB := 0, offsetrrB := 0, offsetrrC := 0,
       offsetdcl := 0, offsetdcr := 0,
       pos := arr2_upd (arr2_upd (arr2_upd (arr2_upd (pos s) 0 1 (current_posl inp)) 0 0 (current_posl inp))
                1 1 (current_posr inp)) 1 0 (current_posr inp),
       timer_brushless := Isr_calibration_func\<rparr>"
  by (simp add: bldc_start_calibration_def Let_def)

lemma adc_accumulate_nf:
  "adc_accumulate inp s =
     s\<lparr>offsetrlA := offsetrlA s + ucast (rlA (adc_buffer inp)),
       offsetrlB := offsetrlB s + ucast (rlB (adc_buffer inp)),
       offsetrrB := offsetrrB s + ucast (rrB (adc_buffer inp)),
       offsetrrC := offsetrrC s + ucast (rrC (adc_buffer inp)),
       offsetdcl := offsetdcl s + ucast (dcl (adc_buffer inp)),
       offsetdcr := offsetdcr s + ucast (dcr (adc_buffer inp))\<rparr>"
  by (simp add: adc_accumulate_def Let_def)

lemma adc_divide_nf:
  "adc_divide cfg s =
     s\<lparr>offsetrlA := offsetrlA s div CALIBRATION_SAMPLES cfg,
       offsetrlB := offsetrlB s div CALIBRATION_SAMPLES cfg,
       offsetrrB := offsetrrB s div CALIBRATION_SAMPLES cfg,
       offsetrrC := offsetrrC s div CALIBRATION_SAMPLES cfg,
       offsetdcl := offsetdcl s div CALIBRATION_SAMPLES cfg,
       offsetdcr := offsetdcr s div CALIBRATION_SAMPLES cfg\<rparr>"
  by (simp add: adc_divide_def Let_def)

lemma pos_after_start:
  "pos (bldc_start_calibration inp s) 0 0 = current_posl inp"
  "pos (bldc_start_calibration inp s) 0 1 = current_posl inp"
  "pos (bldc_start_calibration inp s) 1 0 = current_posr inp"
  "pos (bldc_start_calibration inp s) 1 1 = current_posr inp"
  "pos (bldc_start_calibration inp s) 0 (Suc 0) = current_posl inp"
  "pos (bldc_start_calibration inp s) (Suc 0) 0 = current_posr inp"
  "pos (bldc_start_calibration inp s) (Suc 0) (Suc 0) = current_posr inp"
  by (simp_all add: bldc_start_calibration_nf arr2_upd_def)

lemma unat_ucast_32_64: "unat (ucast (n :: uint32_t) :: uint64_t) = unat n"
proof -
  have "unat n < 2 ^ 32" using unsigned_less [of n] by simp
  then have "unat n < 2 ^ 64" by simp
  then show ?thesis
    by (simp add: unsigned_ucast_eq take_bit_nat_eq_self)
qed

lemma unat_ucast_16_32: "unat (ucast (v :: uint16_t) :: uint32_t) = unat v"
proof -
  have "unat v < 2 ^ 16" using unsigned_less [of v] by simp
  then have "unat v < 2 ^ 32" by simp
  then show ?thesis
    by (simp add: unsigned_ucast_eq take_bit_nat_eq_self)
qed

lemma sample_target_nonzero:
  "(ucast (n :: uint32_t) = (0 :: uint64_t)) = (n = 0)"
  using unat_ucast_32_64 [of n] by (metis unat_eq_zero)

lemma sum_const_samples:
  "(\<forall>i \<in> set ins. f i = v) \<Longrightarrow>
   sum_list (map (\<lambda>i. ucast (f i)) ins) = (of_nat (length ins) * ucast v :: uint32_t)"
  for f :: "inputs \<Rightarrow> uint16_t"
  by (induction ins) (simp_all add: algebra_simps)

lemma average_of_constant:
  fixes n :: uint32_t and v :: uint16_t
  assumes "n \<noteq> 0" "unat n * unat v < 2 ^ 32"
  shows "(n * ucast v) div n = (ucast v :: uint32_t)"
proof -
  have v: "unat (ucast v :: uint32_t) = unat v" by (rule unat_ucast_16_32)
  have "unat n * unat (ucast v :: uint32_t) < 2 ^ LENGTH(32)"
    using assms(2) by (simp add: v)
  then have m: "unat (n * ucast v :: uint32_t) = unat n * unat v"
    by (simp add: unat_mult_lem [THEN iffD1] v)
  have "0 < unat n" using assms(1) by (simp add: unat_gt_0)
  then have "unat ((n * ucast v) div n :: uint32_t) = unat (ucast v :: uint32_t)"
    by (simp add: unat_div m v)
  then show ?thesis by (simp add: word_unat_eq_iff)
qed

lemma calibration_func_still:
  assumes "current_posl inp = pos s 0 0" "current_posr inp = pos s 1 0"
  shows "calibration_func cfg inp s =
     (if mainCounter s < ucast (CALIBRATION_SAMPLES cfg) then adc_accumulate inp s
      else if mainCounter s = ucast (CALIBRATION_SAMPLES cfg)
      then (adc_divide cfg (adc_accumulate inp s))\<lparr>timer_brushless := Isr_bldc_control\<rparr>
      else s)"
  using assms by (simp add: calibration_func_def Let_def)

lemma calibration_func_moved:
  assumes "current_posl inp \<noteq> pos s 0 0 \<or> current_posr inp \<noteq> pos s 1 0"
    and "CALIBRATION_SAMPLES cfg \<noteq> 0"
  shows "calibration_func cfg inp s = adc_accumulate inp (bldc_start_calibration inp s)"
proof -
  have c0: "mainCounter (bldc_start_calibration inp s) = 0"
    by (simp add: bldc_start_calibration_nf)
  have lt: "(ucast (CALIBRATION_SAMPLES cfg) :: uint64_t) \<noteq> 0"
    using assms(2) by (simp add: sample_target_nonzero)
  show ?thesis
  proof (cases "current_posl inp \<noteq> pos s 0 0")
    case True
    then show ?thesis
      unfolding calibration_func_def Let_def
      by (simp add: pos_after_start c0 lt word_gt_0)
  next
    case False
    with assms(1) have "current_posr inp \<noteq> pos s 1 0" by simp
    with False show ?thesis
      unfolding calibration_func_def Let_def
      by (simp add: pos_after_start c0 lt word_gt_0)
  qed
qed

lemma calibration_func_frame:
  "buzzerFunc (calibration_func cfg inp s) = buzzerFunc s"
  "OverrunFlag (calibration_func cfg inp s) = OverrunFlag s"
  by (simp_all add: calibration_func_def Let_def bldc_start_calibration_nf adc_accumulate_nf adc_divide_nf)

lemma irq_overrun:
  "OverrunFlag s \<Longrightarrow>
   DMA1_Channel1_IRQHandler cfg inp s =
     s\<lparr>DMA1_IFCR := DMA_IFCR_CTCIF1 cfg, mainCounter := mainCounter s + 1\<rparr>"
  by (simp add: DMA1_Channel1_IRQHandler_def Let_def)

lemma irq_calibration:
  assumes "\<not> OverrunFlag s" "timer_brushless s = Isr_calibration_func" "buzzerFunc s = Isr_nullFunc"
  shows "DMA1_Channel1_IRQHandler cfg inp s =
     battery_filter cfg inp (buzzer_square_wave
       ((calibration_func cfg inp
           (s\<lparr>DMA1_IFCR := DMA_IFCR_CTCIF1 cfg, mainCounter := mainCounter s + 1,
              OverrunFlag := True\<rparr>))\<lparr>OverrunFlag := False\<rparr>))"
  using assms
  by (simp add: DMA1_Channel1_IRQHandler_def Let_def call_IsrPtr_def calibration_func_frame)

lemma irq_accumulating:
  assumes run: "\<not> OverrunFlag s" "timer_brushless s = Isr_calibration_func"
      "buzzerFunc s = Isr_nullFunc"
    and still: "current_posl inp = pos s 0 0" "current_posr inp = pos s 1 0"
    and count: "mainCounter s + 1 < ucast (CALIBRATION_SAMPLES cfg)"
  shows "mainCounter (DMA1_Channel1_IRQHandler cfg inp s) = mainCounter s + 1
   \<and> offsetrlA (DMA1_Channel1_IRQHandler cfg inp s) = offsetrlA s + ucast (rlA (adc_buffer inp))
   \<and> offsetrlB (DMA1_Channel1_IRQHandler cfg inp s) = offsetrlB s + ucast (rlB (adc_buffer inp))
   \<and> offsetrrB (DMA1_Channel1_IRQHandler cfg inp s) = offsetrrB s + ucast (rrB (adc_buffer inp))
   \<and> offsetrrC (DMA1_Channel1_IRQHandler cfg inp s) = offsetrrC s + ucast (rrC (adc_buffer inp))
   \<and> offsetdcl (DMA1_Channel1_IRQHandler cfg inp s) = offsetdcl s + ucast (dcl (adc_buffer inp))
   \<and> offsetdcr (DMA1_Channel1_IRQHandler cfg inp s) = offsetdcr s + ucast (dcr (adc_buffer inp))
   \<and> pos (DMA1_Channel1_IRQHandler cfg inp s) = pos s
   \<and> timer_brushless (DMA1_Channel1_IRQHandler cfg inp s) = Isr_calibration_func
   \<and> buzzerFunc (DMA1_Channel1_IRQHandler cfg inp s) = Isr_nullFunc
   \<and> \<not> OverrunFlag (DMA1_Channel1_IRQHandler cfg inp s)"
proof -
  let ?t = "(s\<lparr>DMA1_IFCR := DMA_IFCR_CTCIF1 cfg, mainCounter := mainCounter s + 1, OverrunFlag := True\<rparr>)"
  have c: "calibration_func cfg inp ?t = adc_accumulate inp ?t"
    using calibration_func_still [of inp ?t cfg] still count by simp
  show ?thesis
    unfolding irq_calibration [OF run] c using run
    by (simp add: buzzer_square_wave_frame battery_filter_frame adc_accumulate_nf)
qed

lemma irq_finalising:
  assumes run: "\<not> OverrunFlag s" "timer_brushless s = Isr_calibration_func"
      "buzzerFunc s = Isr_nullFunc"
    and still: "current_posl inp = pos s 0 0" "current_posr inp = pos s 1 0"
    and count: "mainCounter s + 1 = ucast (CALIBRATION_SAMPLES cfg)"
  shows "mainCounter (DMA1_Channel1_IRQHandler cfg inp s) = mainCounter s + 1
   \<and> offsetrlA (DMA1_Channel1_IRQHandler cfg inp s) = (offsetrlA s + ucast (rlA (adc_buffer inp))) div CALIBRATION_SAMPLES cfg
   \<and> offsetrlB (DMA1_Channel1_IRQHandler cfg inp s) = (offsetrlB s + ucast (rlB (adc_buffer inp))) div CALIBRATION_SAMPLES cfg
   \<and> offsetrrB (DMA1_Channel1_IRQHandler cfg inp s) = (offsetrrB s + ucast (rrB (adc_buffer inp))) div CALIBRATION_SAMPLES cfg
   \<and> offsetrrC (DMA1_Channel1_IRQHandler cfg inp s) = (offsetrrC s + ucast (rrC (adc_buffer inp))) div CALIBRATION_SAMPLES cfg
   \<and> offsetdcl (DMA1_Channel1_IRQHandler cfg inp s) = (offsetdcl s + ucast (dcl (adc_buffer inp))) div CALIBRATION_SAMPLES cfg
   \<and> offsetdcr (DMA1_Channel1_IRQHandler cfg inp s) = (offsetdcr s + ucast (dcr (adc_buffer inp))) div CALIBRATION_SAMPLES cfg
   \<and> pos (DMA1_Channel1_IRQHandler cfg inp s) = pos s
   \<and> timer_brushless (DMA1_Channel1_IRQHandler cfg inp s) = Isr_bldc_control
   \<and> buzzerFunc (DMA1_Channel1_IRQHandler cfg inp s) = Isr_nullFunc
   \<and> \<not> OverrunFlag (DMA1_Channel1_IRQHandler cfg inp s)"
proof -
  let ?t = "(s\<lparr>DMA1_IFCR := DMA_IFCR_CTCIF1 cfg, mainCounter := mainCounter s + 1, OverrunFlag := True\<rparr>)"
  have c: "calibration_func cfg inp ?t =
      (adc_divide cfg (adc_accumulate inp ?t))\<lparr>timer_brushless := Isr_bldc_control\<rparr>"
    using calibration_func_still [of inp ?t cfg] still count by simp
  show ?thesis
    unfolding irq_calibration [OF run] c using run
    by (simp add: buzzer_square_wave_frame battery_filter_frame adc_accumulate_nf adc_divide_nf)
qed


lemma irq_restart:
  assumes run: "\<not> OverrunFlag s" "timer_brushless s = Isr_calibration_func"
      "buzzerFunc s = Isr_nullFunc"
    and moved: "current_posl inp \<noteq> pos s 0 0 \<or> current_posr inp \<noteq> pos s 1 0"
    and target: "CALIBRATION_SAMPLES cfg \<noteq> 0"
  shows "mainCounter (DMA1_Channel1_IRQHandler cfg inp s) = 0
   \<and> offsetrlA (DMA1_Channel1_IRQHandler cfg inp s) = ucast (rlA (adc_buffer inp))
   \<and> offsetrlB (DMA1_Channel1_IRQHandler cfg inp s) = ucast (rlB (adc_buffer inp))
   \<and> offsetrrB (DMA1_Channel1_IRQHandler cfg inp s) = ucast (rrB (adc_buffer inp))
   \<and> offsetrrC (DMA1_Channel1_IRQHandler cfg inp s) = ucast (rrC (adc_buffer inp))
   \<and> offsetdcl (DMA1_Channel1_IRQHandler cfg inp s) = ucast (dcl (adc_buffer inp))
   \<and> offsetdcr (DMA1_Channel1_IRQHandler cfg inp s) = ucast (dcr (adc_buffer inp))
   \<and> pos (DMA1_Channel1_IRQHandler cfg inp s) 0 0 = current_posl inp
   \<and> pos (DMA1_Channel1_IRQHandler cfg inp s) 0 1 = current_posl inp
   \<and> pos (DMA1_Channel1_IRQHandler cfg inp s) 1 0 = current_posr inp
   \<and> pos (DMA1_Channel1_IRQHandler cfg inp s) 1 1 = current_posr inp
   \<and> timer_brushless (DMA1_Channel1_IRQHandler cfg inp s) = Isr_calibration_func
   \<and> buzzerFunc (DMA1_Channel1_IRQHandler cfg inp s) = Isr_nullFunc
   \<and> \<not> OverrunFlag (DMA1_Channel1_IRQHandler cfg inp s)"
proof -
  let ?t = "(s\<lparr>DMA1_IFCR := DMA_IFCR_CTCIF1 cfg, mainCounter := mainCounter s + 1, OverrunFlag := True\<rparr>)"
  have c: "calibration_func cfg inp ?t = adc_accumulate inp (bldc_start_calibration inp ?t)"
    using calibration_func_moved [of inp ?t cfg] moved target by simp
  show ?thesis
    unfolding irq_calibration [OF run] c using run
    by (simp add: buzzer_square_wave_frame battery_filter_frame adc_accumulate_nf
          bldc_start_calibration_nf arr2_upd_def)
qed

lemma run_ticks_append:
  "run_ticks cfg (xs @ ys) s = run_ticks cfg ys (run_ticks cfg xs s)"
  by (induction xs arbitrary: s) simp_all

lemma counter_succ:
  fixes c :: uint64_t
  assumes "unat c + 1 < 2 ^ 64"
  shows "unat (c + 1) = unat c + 1"
  using assms unat_add_lem [of c 1] by simp

lemma counter_below_target:
  fixes c :: uint64_t and n :: uint32_t
  assumes "unat c + Suc k < unat n"
  shows "c + 1 < ucast n" and "unat (c + 1) + k < unat n"
proof -
  have "unat n < 2 ^ 32" using unsigned_less [of n] by simp
  with assms have "unat c + 1 < 2 ^ 64" by simp
  then have s: "unat (c + 1) = unat c + 1" by (rule counter_succ)
  show "c + 1 < ucast n"
    using assms by (simp add: word_less_nat_alt s unat_ucast_32_64)
  show "unat (c + 1) + k < unat n"
    using assms by (simp add: s)
qed

lemma counter_at_target:
  fixes c :: uint64_t and n :: uint32_t
  assumes "unat c + 1 = unat n"
  shows "c + 1 = ucast n"
proof -
  have "unat n < 2 ^ 32" using unsigned_less [of n] by simp
  with assms have "unat c + 1 < 2 ^ 64" by simp
  then have "unat (c + 1) = unat c + 1" by (rule counter_succ)
  then show ?thesis
    using assms by (simp add: word_unat_eq_iff unat_ucast_32_64)
qed


lemma run_accumulating:
  assumes run: "\<not> OverrunFlag s" "timer_brushless s = Isr_calibration_func"
      "buzzerFunc s = Isr_nullFunc"
    and still: "\<forall>i \<in> set ins. current_posl i = pos s 0 0 \<and> current_posr i = pos s 1 0"
    and count: "unat (mainCounter s) + length ins < unat (CALIBRATION_SAMPLES cfg)"
  shows "mainCounter (run_ticks cfg ins s) = mainCounter s + of_nat (length ins)
   \<and> offsetrlA (run_ticks cfg ins s) = offsetrlA s + sum_list (map (\<lambda>i. ucast (rlA (adc_buffer i))) ins)
   \<and> offsetrlB (run_ticks cfg ins s) = offsetrlB s + sum_list (map (\<lambda>i. ucast (rlB (adc_buffer i))) ins)
   \<and> offsetrrB (run_ticks cfg ins s) = offsetrrB s + sum_list (map (\<lambda>i. ucast (rrB (adc_buffer i))) ins)
   \<and> offsetrrC (run_ticks cfg ins s) = offsetrrC s + sum_list (map (\<lambda>i. ucast (rrC (adc_buffer i))) ins)
   \<and> offsetdcl (run_ticks cfg ins s) = offsetdcl s + sum_list (map (\<lambda>i. ucast (dcl (adc_buffer i))) ins)
   \<and> offsetdcr (run_ticks cfg ins s) = offsetdcr s + sum_list (map (\<lambda>i. ucast (dcr (adc_buffer i))) ins)
   \<and> pos (run_ticks cfg ins s) = pos s
   \<and> timer_brushless (run_ticks cfg ins s) = Isr_calibration_func
   \<and> buzzerFunc (run_ticks cfg ins s) = Isr_nullFunc
   \<and> \<not> OverrunFlag (run_ticks cfg ins s)"
  using run still count
proof (induction ins arbitrary: s)
  case Nil
  then show ?case by simp
next
  case (Cons inp ins)
  let ?s1 = "DMA1_Channel1_IRQHandler cfg inp s"
  have here: "current_posl inp = pos s 0 0" "current_posr inp = pos s 1 0"
    using Cons.prems(4) by simp_all
  have c: "mainCounter s + 1 < ucast (CALIBRATION_SAMPLES cfg)"
    and c': "unat (mainCounter s + 1) + length ins < unat (CALIBRATION_SAMPLES cfg)"
    using counter_below_target [of "mainCounter s" "length ins" "CALIBRATION_SAMPLES cfg"]
      Cons.prems(5) by simp_all
  note t = irq_accumulating [OF Cons.prems(1-3) here c]
  have ih: "\<not> OverrunFlag ?s1" "timer_brushless ?s1 = Isr_calibration_func"
      "buzzerFunc ?s1 = Isr_nullFunc"
      "\<forall>i \<in> set ins. current_posl i = pos ?s1 0 0 \<and> current_posr i = pos ?s1 1 0"
      "unat (mainCounter ?s1) + length ins < unat (CALIBRATION_SAMPLES cfg)"
    using t Cons.prems(4) c' by simp_all
  show ?case
    using Cons.IH [OF ih] t by (simp add: algebra_simps)
qed

lemma run_to_target:
  assumes run: "\<not> OverrunFlag s" "timer_brushless s = Isr_calibration_func"
      "buzzerFunc s = Isr_nullFunc"
    and still: "\<forall>i \<in> set ins. current_posl i = pos s 0 0 \<and> current_posr i = pos s 1 0"
    and fresh: "mainCounter s = 0"
    and len: "length ins = unat (CALIBRATION_SAMPLES cfg)"
    and target: "CALIBRATION_SAMPLES cfg \<noteq> 0"
  shows "mainCounter (run_ticks cfg ins s) = ucast (CALIBRATION_SAMPLES cfg)
   \<and> offsetrlA (run_ticks cfg ins s) = (offsetrlA s + sum_list (map (\<lambda>i. ucast (rlA (adc_buffer i))) ins)) div CALIBRATION_SAMPLES cfg
   \<and> offsetrlB (run_ticks cfg ins s) = (offsetrlB s + sum_list (map (\<lambda>i. ucast (rlB (adc_buffer i))) ins)) div CALIBRATION_SAMPLES cfg
   \<and> offsetrrB (run_ticks cfg ins s) = (offsetrrB s + sum_list (map (\<lambda>i. ucast (rrB (adc_buffer i))) ins)) div CALIBRATION_SAMPLES cfg
   \<and> offsetrrC (run_ticks cfg ins s) = (offsetrrC s + sum_list (map (\<lambda>i. ucast (rrC (adc_buffer i))) ins)) div CALIBRATION_SAMPLES cfg
   \<and> offsetdcl (run_ticks cfg ins s) = (offsetdcl s + sum_list (map (\<lambda>i. ucast (dcl (adc_buffer i))) ins)) div CALIBRATION_SAMPLES cfg
   \<and> offsetdcr (run_ticks cfg ins s) = (offsetdcr s + sum_list (map (\<lambda>i. ucast (dcr (adc_buffer i))) ins)) div CALIBRATION_SAMPLES cfg
   \<and> pos (run_ticks cfg ins s) = pos s
   \<and> timer_brushless (run_ticks cfg ins s) = Isr_bldc_control"
proof -
  from len target have ne: "ins \<noteq> []"
    by (auto simp: unat_eq_zero)
  define xs where "xs = butlast ins"
  define lst where "lst = last ins"
  have ins: "ins = xs @ [lst]"
    using ne by (simp add: xs_def lst_def)
  have lenx: "Suc (length xs) = unat (CALIBRATION_SAMPLES cfg)"
    using len ins by simp
  let ?s1 = "run_ticks cfg xs s"
  have stillx: "\<forall>i \<in> set xs. current_posl i = pos s 0 0 \<and> current_posr i = pos s 1 0"
    using still ins by simp
  have countx: "unat (mainCounter s) + length xs < unat (CALIBRATION_SAMPLES cfg)"
    using fresh lenx by simp
  note a = run_accumulating [OF run stillx countx]
  have run1: "\<not> OverrunFlag ?s1" "timer_brushless ?s1 = Isr_calibration_func"
      "buzzerFunc ?s1 = Isr_nullFunc"
    using a by simp_all
  have still1: "current_posl lst = pos ?s1 0 0" "current_posr lst = pos ?s1 1 0"
    using a still ins by simp_all
  have "unat (CALIBRATION_SAMPLES cfg) < 2 ^ 32"
    using unsigned_less [of "CALIBRATION_SAMPLES cfg"] by simp
  then have "length xs < 2 ^ 64"
    using lenx by simp
  then have "unat (mainCounter ?s1) = length xs"
    using a fresh by (simp add: unat_of_nat)
  then have "unat (mainCounter ?s1) + 1 = unat (CALIBRATION_SAMPLES cfg)"
    using lenx by simp
  then have count1: "mainCounter ?s1 + 1 = ucast (CALIBRATION_SAMPLES cfg)"
    by (rule counter_at_target)
  note f = irq_finalising [OF run1 still1 count1]
  show ?thesis
    unfolding ins run_ticks_append
    using f a count1 by (simp add: algebra_simps)
qed






text \<open>
  A restart inside the interrupt.  Lines 141 to 144 call \<open>bldc_start_calibration\<close> and go on
  to line 146, so the tick that restarts also adds its own sample to the zeroed
  accumulators, and the \<open>N\<close> ticks that follow add \<open>N\<close> more before the division.
\<close>

lemma irq_restart_then_target:
  fixes cfg :: "'dw config" and s :: "'dw state"
  assumes run: "\<not> OverrunFlag s" "timer_brushless s = Isr_calibration_func"
      "buzzerFunc s = Isr_nullFunc"
    and moved: "current_posl inp \<noteq> pos s 0 0 \<or> current_posr inp \<noteq> pos s 1 0"
    and target: "CALIBRATION_SAMPLES cfg \<noteq> 0"
    and len: "length ins = unat (CALIBRATION_SAMPLES cfg)"
    and still: "\<forall>i \<in> set ins. current_posl i = current_posl inp \<and> current_posr i = current_posr inp"
  shows "calibration_func cfg inp s = adc_accumulate inp (bldc_start_calibration inp s)
   \<and> mainCounter (bldc_start_calibration inp s) = 0
   \<and> offsetrlA (bldc_start_calibration inp s) = 0
   \<and> offsetrlB (bldc_start_calibration inp s) = 0
   \<and> offsetrrB (bldc_start_calibration inp s) = 0
   \<and> offsetrrC (bldc_start_calibration inp s) = 0
   \<and> offsetdcl (bldc_start_calibration inp s) = 0
   \<and> offsetdcr (bldc_start_calibration inp s) = 0
   \<and> pos (bldc_start_calibration inp s) 0 0 = current_posl inp
   \<and> pos (bldc_start_calibration inp s) 0 1 = current_posl inp
   \<and> pos (bldc_start_calibration inp s) 1 0 = current_posr inp
   \<and> pos (bldc_start_calibration inp s) 1 1 = current_posr inp
   \<and> timer_brushless (bldc_start_calibration inp s) = Isr_calibration_func
   \<and> mainCounter (DMA1_Channel1_IRQHandler cfg inp s) = 0
   \<and> offsetrlA (DMA1_Channel1_IRQHandler cfg inp s) = ucast (rlA (adc_buffer inp))
   \<and> offsetrlB (DMA1_Channel1_IRQHandler cfg inp s) = ucast (rlB (adc_buffer inp))
   \<and> offsetrrB (DMA1_Channel1_IRQHandler cfg inp s) = ucast (rrB (adc_buffer inp))
   \<and> offsetrrC (DMA1_Channel1_IRQHandler cfg inp s) = ucast (rrC (adc_buffer inp))
   \<and> offsetdcl (DMA1_Channel1_IRQHandler cfg inp s) = ucast (dcl (adc_buffer inp))
   \<and> offsetdcr (DMA1_Channel1_IRQHandler cfg inp s) = ucast (dcr (adc_buffer inp))
   \<and> pos (DMA1_Channel1_IRQHandler cfg inp s) 0 0 = current_posl inp
   \<and> pos (DMA1_Channel1_IRQHandler cfg inp s) 0 1 = current_posl inp
   \<and> pos (DMA1_Channel1_IRQHandler cfg inp s) 1 0 = current_posr inp
   \<and> pos (DMA1_Channel1_IRQHandler cfg inp s) 1 1 = current_posr inp
   \<and> timer_brushless (DMA1_Channel1_IRQHandler cfg inp s) = Isr_calibration_func
   \<and> offsetrlA (run_ticks cfg ins (DMA1_Channel1_IRQHandler cfg inp s)) =
       (ucast (rlA (adc_buffer inp)) + sum_list (map (\<lambda>i. ucast (rlA (adc_buffer i))) ins)) div CALIBRATION_SAMPLES cfg
   \<and> offsetrlB (run_ticks cfg ins (DMA1_Channel1_IRQHandler cfg inp s)) =
       (ucast (rlB (adc_buffer inp)) + sum_list (map (\<lambda>i. ucast (rlB (adc_buffer i))) ins)) div CALIBRATION_SAMPLES cfg
   \<and> offsetrrB (run_ticks cfg ins (DMA1_Channel1_IRQHandler cfg inp s)) =
       (ucast (rrB (adc_buffer inp)) + sum_list (map (\<lambda>i. ucast (rrB (adc_buffer i))) ins)) div CALIBRATION_SAMPLES cfg
   \<and> offsetrrC (run_ticks cfg ins (DMA1_Channel1_IRQHandler cfg inp s)) =
       (ucast (rrC (adc_buffer inp)) + sum_list (map (\<lambda>i. ucast (rrC (adc_buffer i))) ins)) div CALIBRATION_SAMPLES cfg
   \<and> offsetdcl (run_ticks cfg ins (DMA1_Channel1_IRQHandler cfg inp s)) =
       (ucast (dcl (adc_buffer inp)) + sum_list (map (\<lambda>i. ucast (dcl (adc_buffer i))) ins)) div CALIBRATION_SAMPLES cfg
   \<and> offsetdcr (run_ticks cfg ins (DMA1_Channel1_IRQHandler cfg inp s)) =
       (ucast (dcr (adc_buffer inp)) + sum_list (map (\<lambda>i. ucast (dcr (adc_buffer i))) ins)) div CALIBRATION_SAMPLES cfg
   \<and> timer_brushless (run_ticks cfg ins (DMA1_Channel1_IRQHandler cfg inp s)) = Isr_bldc_control"
proof -
  let ?t = "DMA1_Channel1_IRQHandler cfg inp s"
  note r = irq_restart [OF run moved target]
  have run1: "\<not> OverrunFlag ?t" "timer_brushless ?t = Isr_calibration_func"
      "buzzerFunc ?t = Isr_nullFunc"
    using r by simp_all
  have p: "pos ?t 0 0 = current_posl inp" "pos ?t 1 0 = current_posr inp"
    using r by simp_all
  have still1: "\<forall>i \<in> set ins. current_posl i = pos ?t 0 0 \<and> current_posr i = pos ?t 1 0"
    unfolding p using still by blast
  have fresh: "mainCounter ?t = 0"
    using r by simp
  note f = run_to_target [OF run1 still1 fresh len target]
  have a: "calibration_func cfg inp s = adc_accumulate inp (bldc_start_calibration inp s)"
    using moved target by (rule calibration_func_moved)
  have z: "mainCounter (bldc_start_calibration inp s) = 0"
      "offsetrlA (bldc_start_calibration inp s) = 0" "offsetrlB (bldc_start_calibration inp s) = 0"
      "offsetrrB (bldc_start_calibration inp s) = 0" "offsetrrC (bldc_start_calibration inp s) = 0"
      "offsetdcl (bldc_start_calibration inp s) = 0" "offsetdcr (bldc_start_calibration inp s) = 0"
      "timer_brushless (bldc_start_calibration inp s) = Isr_calibration_func"
    by (simp_all add: bldc_start_calibration_nf)
  have fo: "offsetrlA (run_ticks cfg ins ?t) =
       (ucast (rlA (adc_buffer inp)) + sum_list (map (\<lambda>i. ucast (rlA (adc_buffer i))) ins)) div CALIBRATION_SAMPLES cfg
      \<and> offsetrlB (run_ticks cfg ins ?t) =
       (ucast (rlB (adc_buffer inp)) + sum_list (map (\<lambda>i. ucast (rlB (adc_buffer i))) ins)) div CALIBRATION_SAMPLES cfg
      \<and> offsetrrB (run_ticks cfg ins ?t) =
       (ucast (rrB (adc_buffer inp)) + sum_list (map (\<lambda>i. ucast (rrB (adc_buffer i))) ins)) div CALIBRATION_SAMPLES cfg
      \<and> offsetrrC (run_ticks cfg ins ?t) =
       (ucast (rrC (adc_buffer inp)) + sum_list (map (\<lambda>i. ucast (rrC (adc_buffer i))) ins)) div CALIBRATION_SAMPLES cfg
      \<and> offsetdcl (run_ticks cfg ins ?t) =
       (ucast (dcl (adc_buffer inp)) + sum_list (map (\<lambda>i. ucast (dcl (adc_buffer i))) ins)) div CALIBRATION_SAMPLES cfg
      \<and> offsetdcr (run_ticks cfg ins ?t) =
       (ucast (dcr (adc_buffer inp)) + sum_list (map (\<lambda>i. ucast (dcr (adc_buffer i))) ins)) div CALIBRATION_SAMPLES cfg
      \<and> timer_brushless (run_ticks cfg ins ?t) = Isr_bldc_control"
    using f r by simp
  show ?thesis
    using a z pos_after_start(1-4) [of inp s] r fo
    by (intro conjI) (erule conjE | assumption)+
qed





section \<open>The claims\<close>

text \<open>
  C1.  On every control tick the enable input \<open>b_motEna\<close> of the left and of the right
  controller step is non-zero exactly when the administrative enable is set and the fault
  codes that both motors' steps left behind on the previous tick are zero; both inputs
  are the one value \<open>enableFin\<close> (1 or 0), and each step, when built in, is called on the
  input record that holds it.
\<close>

theorem enable_fault_gate_both_motors:
  "(b_motEna (rtU_Left (bldc_control cfg inp s)) \<noteq> 0) =
       (enable s \<noteq> 0 \<and> z_errCode (rtY_Left s) = 0 \<and> z_errCode (rtY_Right s) = 0)
   \<and> (b_motEna (rtU_Right (bldc_control cfg inp s)) \<noteq> 0) =
       (enable s \<noteq> 0 \<and> z_errCode (rtY_Left s) = 0 \<and> z_errCode (rtY_Right s) = 0)
   \<and> b_motEna (rtU_Left (bldc_control cfg inp s)) = enableFin (bldc_control cfg inp s)
   \<and> b_motEna (rtU_Right (bldc_control cfg inp s)) = enableFin (bldc_control cfg inp s)
   \<and> enableFin (bldc_control cfg inp s) =
       (if enable s \<noteq> 0 \<and> z_errCode (rtY_Left s) = 0 \<and> z_errCode (rtY_Right s) = 0
        then 1 else 0)
   \<and> rtY_Left (bldc_control cfg inp s) =
       (if MOTOR_LEFT_ENA cfg
        then fst (BLDC_controller_step cfg (rtP_Left s) (rtU_Left (bldc_control cfg inp s))
                    (rtY_Left s) (DW_Left s))
        else rtY_Left s)
   \<and> rtY_Right (bldc_control cfg inp s) =
       (if MOTOR_RIGHT_ENA cfg
        then fst (BLDC_controller_step cfg (rtP_Right s) (rtU_Right (bldc_control cfg inp s))
                    (rtY_Right s) (DW_Right s))
        else rtY_Right s)"
proof -
  have fin: "enableFin (bldc_control cfg inp s) =
       (if enable s \<noteq> 0 \<and> z_errCode (rtY_Left s) = 0 \<and> z_errCode (rtY_Right s) = 0
        then 1 else 0)"
    by (rule bc_enableFin)
  have l: "b_motEna (rtU_Left (bldc_control cfg inp s)) = enableFin (bldc_control cfg inp s)"
    by (rule bc_motEna_Left)
  have r: "b_motEna (rtU_Right (bldc_control cfg inp s)) = enableFin (bldc_control cfg inp s)"
    by (rule bc_motEna_Right)
  show ?thesis
    unfolding l r using bc_rtY [of cfg inp s] by (simp add: fin)
qed

text \<open>
  C2.  On every control tick and for each motor, the main-output-enable bit of the timer
  is cleared exactly when the magnitude of the offset-corrected DC-link current is
  strictly above \<open>curDC_max\<close> or the administrative enable is 0, and set otherwise (so a
  magnitude equal to the ceiling leaves it set); the fault codes do not enter.
\<close>

theorem current_protection_gate:
  assumes moe: "TIM_BDTR_MOE cfg \<noteq> 0"
  shows "(BDTR (LEFT_TIM (bldc_control cfg inp s)) AND TIM_BDTR_MOE cfg = 0) =
       (ABS (sint (curL_DC (bldc_control cfg inp s))) > sint (curDC_max cfg) \<or> enable s = 0)
   \<and> (BDTR (LEFT_TIM (bldc_control cfg inp s)) AND TIM_BDTR_MOE cfg = TIM_BDTR_MOE cfg) =
       (ABS (sint (curL_DC (bldc_control cfg inp s))) \<le> sint (curDC_max cfg) \<and> enable s \<noteq> 0)
   \<and> curL_DC (bldc_control cfg inp s) = ucast (offsetdcl s - ucast (dcl (adc_buffer inp)))
   \<and> (BDTR (RIGHT_TIM (bldc_control cfg inp s)) AND TIM_BDTR_MOE cfg = 0) =
       (ABS (sint (curR_DC (bldc_control cfg inp s))) > sint (curDC_max cfg) \<or> enable s = 0)
   \<and> (BDTR (RIGHT_TIM (bldc_control cfg inp s)) AND TIM_BDTR_MOE cfg = TIM_BDTR_MOE cfg) =
       (ABS (sint (curR_DC (bldc_control cfg inp s))) \<le> sint (curDC_max cfg) \<and> enable s \<noteq> 0)
   \<and> curR_DC (bldc_control cfg inp s) = ucast (offsetdcr s - ucast (dcr (adc_buffer inp)))"
proof -
  have l: "BDTR (LEFT_TIM (bldc_control cfg inp s)) AND TIM_BDTR_MOE cfg =
      (if ABS (sint (curL_DC (bldc_control cfg inp s))) > sint (curDC_max cfg) \<or> enable s = 0
       then 0 else TIM_BDTR_MOE cfg)"
    by (simp add: bc_BDTR_Left moe_cleared moe_set)
  have r: "BDTR (RIGHT_TIM (bldc_control cfg inp s)) AND TIM_BDTR_MOE cfg =
      (if ABS (sint (curR_DC (bldc_control cfg inp s))) > sint (curDC_max cfg) \<or> enable s = 0
       then 0 else TIM_BDTR_MOE cfg)"
    by (simp add: bc_BDTR_Right moe_cleared moe_set)
  show ?thesis
    unfolding l r using moe bc_cur_DC [of cfg inp s] by auto
qed

theorem current_protection_gate_witness:
  "TIM_BDTR_MOE reference_config \<noteq> 0
   \<and> z_errCode (rtY_Left (reset_state\<lparr>enable := 1, offsetdcl := 2000, offsetdcr := 2001,
          rtY_Left := \<lparr>DC_phaA = 0, DC_phaB = 0, DC_phaC = 0, z_errCode = 1\<rparr>\<rparr>)) \<noteq> 0
   \<and> BDTR (LEFT_TIM (bldc_control reference_config (const_inputs True False True 500)
        (reset_state\<lparr>enable := 1, offsetdcl := 2000, offsetdcr := 2001,
          rtY_Left := \<lparr>DC_phaA = 0, DC_phaB = 0, DC_phaC = 0, z_errCode = 1\<rparr>\<rparr>)))
        AND TIM_BDTR_MOE reference_config
      = TIM_BDTR_MOE reference_config
   \<and> BDTR (RIGHT_TIM (bldc_control reference_config (const_inputs True False True 500)
        (reset_state\<lparr>enable := 1, offsetdcl := 2000, offsetdcr := 2001,
          rtY_Left := \<lparr>DC_phaA = 0, DC_phaB = 0, DC_phaC = 0, z_errCode = 1\<rparr>\<rparr>)))
        AND TIM_BDTR_MOE reference_config
      = 0"
proof -
  have moe: "TIM_BDTR_MOE reference_config \<noteq> 0"
    by (simp add: reference_config_def)
  show ?thesis
    using moe current_protection_gate [OF moe, of "const_inputs True False True 500"
        "reset_state\<lparr>enable := 1, offsetdcl := 2000, offsetdcr := 2001,
          rtY_Left := \<lparr>DC_phaA = 0, DC_phaB = 0, DC_phaC = 0, z_errCode = 1\<rparr>\<rparr>"]
    by (simp add: reference_config_def reset_state_def const_inputs_def ABS_def)
qed

text \<open>
  C3 fails as stated: the table holds 6 at \<open>[0][0][0]\<close> and at \<open>[1][1][1]\<close>, which is not
  in \<open>[0,6)\<close>.
\<close>

theorem hall2pos_reserved_sector_counterexample:
  "\<not> unat (hall2pos ! 0 ! 0 ! 0) < 6"
  by (simp add: hall2pos_def)

text \<open>
  C3, amended.  For each of the 8 combinations of the three hall inputs the table yields a
  value in \<open>[0,6]\<close>; the value is below 6 exactly when the three inputs are not all
  equal, and the two combinations with all inputs equal yield the reserved value 6.
\<close>

theorem hall2pos_sector_range:
  "unat (hall2pos ! unat (c_not u) ! unat (c_not v) ! unat (c_not w)) \<le> 6
   \<and> (unat (hall2pos ! unat (c_not u) ! unat (c_not v) ! unat (c_not w)) < 6) = (\<not> (u = v \<and> v = w))
   \<and> unat (current_posl inp) \<le> 6
   \<and> (unat (current_posl inp) < 6) =
        (\<not> (LEFT_HALL_U inp = LEFT_HALL_V inp \<and> LEFT_HALL_V inp = LEFT_HALL_W inp))
   \<and> unat (current_posr inp) \<le> 6
   \<and> (unat (current_posr inp) < 6) =
        (\<not> (RIGHT_HALL_U inp = RIGHT_HALL_V inp \<and> RIGHT_HALL_V inp = RIGHT_HALL_W inp))"
  unfolding current_posl_def current_posr_def Let_def hall2pos_cases
  by simp

text \<open>
  C4.  For each motor the step counter is incremented on a control tick exactly when the
  newly decoded sector differs from the stored current sector and from the stored
  previous sector, and the two-slot history is shifted exactly when the new sector
  differs from the stored current one.  Hence a reading that bounces back to the sector
  stored before the preceding tick is not counted, and a reading that moves on to a third
  sector is.
\<close>

theorem step_counter_and_history:
  "steps (bldc_control cfg inp s) 0 =
       (if current_posl inp \<noteq> pos s 0 0 \<and> current_posl inp \<noteq> pos s 0 1
        then steps s 0 + 1 else steps s 0)
   \<and> (steps (bldc_control cfg inp s) 0 = steps s 0 + 1) =
       (current_posl inp \<noteq> pos s 0 0 \<and> current_posl inp \<noteq> pos s 0 1)
   \<and> pos (bldc_control cfg inp s) 0 0 =
       (if current_posl inp \<noteq> pos s 0 0 then current_posl inp else pos s 0 0)
   \<and> pos (bldc_control cfg inp s) 0 1 =
       (if current_posl inp \<noteq> pos s 0 0 then pos s 0 0 else pos s 0 1)
   \<and> steps (bldc_control cfg inp s) 1 =
       (if current_posr inp \<noteq> pos s 1 0 \<and> current_posr inp \<noteq> pos s 1 1
        then steps s 1 + 1 else steps s 1)
   \<and> (steps (bldc_control cfg inp s) 1 = steps s 1 + 1) =
       (current_posr inp \<noteq> pos s 1 0 \<and> current_posr inp \<noteq> pos s 1 1)
   \<and> pos (bldc_control cfg inp s) 1 0 =
       (if current_posr inp \<noteq> pos s 1 0 then current_posr inp else pos s 1 0)
   \<and> pos (bldc_control cfg inp s) 1 1 =
       (if current_posr inp \<noteq> pos s 1 0 then pos s 1 0 else pos s 1 1)
   \<and> (current_posl inp' = pos s 0 0 \<longrightarrow>
        steps (bldc_control cfg inp' (bldc_control cfg inp s)) 0 = steps (bldc_control cfg inp s) 0)
   \<and> (current_posr inp' = pos s 1 0 \<longrightarrow>
        steps (bldc_control cfg inp' (bldc_control cfg inp s)) 1 = steps (bldc_control cfg inp s) 1)
   \<and> (current_posl inp \<noteq> pos s 0 0 \<and> current_posl inp' \<noteq> current_posl inp
         \<and> current_posl inp' \<noteq> pos s 0 0 \<longrightarrow>
        steps (bldc_control cfg inp' (bldc_control cfg inp s)) 0 = steps (bldc_control cfg inp s) 0 + 1)
   \<and> (current_posr inp \<noteq> pos s 1 0 \<and> current_posr inp' \<noteq> current_posr inp
         \<and> current_posr inp' \<noteq> pos s 1 0 \<longrightarrow>
        steps (bldc_control cfg inp' (bldc_control cfg inp s)) 1 = steps (bldc_control cfg inp s) 1 + 1)"
proof -
  have one: "x + 1 \<noteq> x" for x :: uint16_t by simp
  note fst_tick = bc_steps [of cfg inp s] bc_pos [of cfg inp s]
  note snd_tick = bc_steps [of cfg inp' "bldc_control cfg inp s"]
  show ?thesis
    unfolding snd_tick fst_tick by (simp add: one)
qed

theorem step_counter_and_history_witness:
  "current_posl (const_inputs True False True 0) =
      pos (bldc_start_calibration (const_inputs True False True 0) reset_state) 0 0
   \<and> steps (bldc_control reference_config (const_inputs True False False 0)
        (bldc_start_calibration (const_inputs True False True 0) reset_state)) 0 = 1
   \<and> steps (bldc_control reference_config (const_inputs True False True 0)
        (bldc_control reference_config (const_inputs True False False 0)
          (bldc_start_calibration (const_inputs True False True 0) reset_state))) 0 = 1
   \<and> steps (bldc_control reference_config (const_inputs True True False 0)
        (bldc_control reference_config (const_inputs True False False 0)
          (bldc_start_calibration (const_inputs True False True 0) reset_state))) 0 = 2"
proof -
  let ?s = "bldc_start_calibration (const_inputs True False True 0) reset_state"
  have p: "pos ?s 0 0 = 4" "pos ?s 0 (Suc 0) = 4"
    by (simp_all add: bldc_start_calibration_def Let_def arr2_upd_def current_posl_def
          const_inputs_def hall2pos_cases)
  have st: "steps ?s 0 = 0"
    by (simp add: bldc_start_calibration_def Let_def reset_state_def)
  have c: "current_posl (const_inputs True False True 0) = 4"
    "current_posl (const_inputs True False False 0) = 3"
    "current_posl (const_inputs True True False 0) = 2"
    by (simp_all add: current_posl_def const_inputs_def hall2pos_cases)
  have bounce: "current_posl (const_inputs True False True 0) = pos ?s 0 0"
    by (simp add: p c)
  have rotate: "current_posl (const_inputs True False False 0) \<noteq> pos ?s 0 0
      \<and> current_posl (const_inputs True True False 0) \<noteq> current_posl (const_inputs True False False 0)
      \<and> current_posl (const_inputs True True False 0) \<noteq> pos ?s 0 0"
    by (simp add: p c)
  show ?thesis
    using step_counter_and_history [of reference_config "const_inputs True False False 0" ?s
        "const_inputs True False True 0"]
      step_counter_and_history [of reference_config "const_inputs True False False 0" ?s
        "const_inputs True True False 0"]
      bounce rotate
    by (simp add: p c st)
qed

text \<open>
  C5.  For each motor, each of the three values written to the timer compare registers
  is the duty output of the controller plus half the PWM period, saturated into
  \<open>[margin, period - margin]\<close> (never wrapped by the conversion to 16 bits), where the
  margin is 110 when the motor's control type is \<open>FOC_CTRL\<close> and 0 otherwise; so every
  written value lies in that interval.  The PWM period is assumed to be at least twice
  the margin, so that the interval is not empty.
\<close>

theorem pwm_compare_values_saturated:
  fixes cfg :: "'dw config" and inp :: inputs and s :: "'dw state"
  defines "s' \<equiv> bldc_control cfg inp s"
    and "P \<equiv> uint (pwm_res cfg)"
    and "mL \<equiv> (if z_ctrlTypSel (rtP_Left s) = FOC_CTRL cfg then 110 else 0) :: int"
    and "mR \<equiv> (if z_ctrlTypSel (rtP_Right s) = FOC_CTRL cfg then 110 else 0) :: int"
  assumes left: "(if z_ctrlTypSel (rtP_Left s) = FOC_CTRL cfg then 220 else 0) \<le> uint (pwm_res cfg)"
    and right: "(if z_ctrlTypSel (rtP_Right s) = FOC_CTRL cfg then 220 else 0) \<le> uint (pwm_res cfg)"
  shows "uint (TIM_U (LEFT_TIM s')) = max mL (min (P - mL) (sint (DC_phaA (rtY_Left s')) + P div 2))
   \<and> uint (TIM_V (LEFT_TIM s')) = max mL (min (P - mL) (sint (DC_phaB (rtY_Left s')) + P div 2))
   \<and> uint (TIM_W (LEFT_TIM s')) = max mL (min (P - mL) (sint (DC_phaC (rtY_Left s')) + P div 2))
   \<and> uint (TIM_U (RIGHT_TIM s')) = max mR (min (P - mR) (sint (DC_phaA (rtY_Right s')) + P div 2))
   \<and> uint (TIM_V (RIGHT_TIM s')) = max mR (min (P - mR) (sint (DC_phaB (rtY_Right s')) + P div 2))
   \<and> uint (TIM_W (RIGHT_TIM s')) = max mR (min (P - mR) (sint (DC_phaC (rtY_Right s')) + P div 2))
   \<and> mL \<le> uint (TIM_U (LEFT_TIM s')) \<and> uint (TIM_U (LEFT_TIM s')) \<le> P - mL
   \<and> mL \<le> uint (TIM_V (LEFT_TIM s')) \<and> uint (TIM_V (LEFT_TIM s')) \<le> P - mL
   \<and> mL \<le> uint (TIM_W (LEFT_TIM s')) \<and> uint (TIM_W (LEFT_TIM s')) \<le> P - mL
   \<and> mR \<le> uint (TIM_U (RIGHT_TIM s')) \<and> uint (TIM_U (RIGHT_TIM s')) \<le> P - mR
   \<and> mR \<le> uint (TIM_V (RIGHT_TIM s')) \<and> uint (TIM_V (RIGHT_TIM s')) \<le> P - mR
   \<and> mR \<le> uint (TIM_W (RIGHT_TIM s')) \<and> uint (TIM_W (RIGHT_TIM s')) \<le> P - mR"
  unfolding s'_def P_def mL_def mR_def bc_TIM_Left bc_TIM_Right
  using compare_value_margin [OF left] compare_value_margin [OF right]
  by simp

theorem pwm_compare_values_saturated_witness:
  "(if z_ctrlTypSel (rtP_Left reset_state) = FOC_CTRL reference_config then 220 else 0)
      \<le> uint (pwm_res reference_config)
   \<and> (if z_ctrlTypSel (rtP_Right reset_state) = FOC_CTRL reference_config then 220 else 0)
      \<le> uint (pwm_res reference_config)
   \<and> uint (TIM_U (LEFT_TIM (bldc_control reference_config (const_inputs True False True 0)
        (reset_state\<lparr>rtY_Left := \<lparr>DC_phaA = 5000, DC_phaB = - 5000, DC_phaC = 300, z_errCode = 0\<rparr>\<rparr>)))) = 1890
   \<and> uint (TIM_V (LEFT_TIM (bldc_control reference_config (const_inputs True False True 0)
        (reset_state\<lparr>rtY_Left := \<lparr>DC_phaA = 5000, DC_phaB = - 5000, DC_phaC = 300, z_errCode = 0\<rparr>\<rparr>)))) = 110
   \<and> uint (TIM_W (LEFT_TIM (bldc_control reference_config (const_inputs True False True 0)
        (reset_state\<lparr>rtY_Left := \<lparr>DC_phaA = 5000, DC_phaB = - 5000, DC_phaC = 300, z_errCode = 0\<rparr>\<rparr>)))) = 1300"
proof -
  let ?s = "reset_state\<lparr>rtY_Left := \<lparr>DC_phaA = 5000, DC_phaB = - 5000, DC_phaC = 300, z_errCode = 0\<rparr>\<rparr>"
  let ?i = "const_inputs True False True 0"
  have l: "(if z_ctrlTypSel (rtP_Left ?s) = FOC_CTRL reference_config then 220 else 0)
      \<le> uint (pwm_res reference_config)"
    by (simp add: reference_config_def reset_state_def)
  have r: "(if z_ctrlTypSel (rtP_Right ?s) = FOC_CTRL reference_config then 220 else 0)
      \<le> uint (pwm_res reference_config)"
    by (simp add: reference_config_def reset_state_def)
  have y: "rtY_Left (bldc_control reference_config ?i ?s) = rtY_Left ?s"
    by (simp add: bc_rtY reference_config_def)
  show ?thesis
    using pwm_compare_values_saturated [OF l r, of ?i] l r
    unfolding y
    by (simp add: reference_config_def reset_state_def)
qed

text \<open>
  C6.  Starting from a fresh calibration (\<open>bldc_start_calibration\<close> has zeroed the tick
  counter and the six accumulators), with every ADC channel held at the value \<open>V\<close>, the
  decoded sectors equal to the baseline on every tick and the overrun guard clear, after
  the tick on which the counter equals the sample target \<open>N\<close> every offset equals \<open>V\<close> and
  the per-tick handler is \<open>bldc_control\<close>.  On every earlier tick the handler is still
  \<open>calibration_func\<close> and the accumulators hold the undivided sums, so the division
  happens once, on that tick.  \<open>N\<close> is non-zero and \<open>N * V\<close> fits the 32-bit accumulators.
\<close>

theorem calibration_constant_input:
  fixes cfg :: "'dw config" and s :: "'dw state" and V :: uint16_t and inp0 :: inputs
  defines "s0 \<equiv> bldc_start_calibration inp0 s"
  assumes idle: "\<not> OverrunFlag s" "buzzerFunc s = Isr_nullFunc"
    and target: "CALIBRATION_SAMPLES cfg \<noteq> 0"
    and fits: "unat (CALIBRATION_SAMPLES cfg) * unat V < 2 ^ 32"
    and len: "length ins = unat (CALIBRATION_SAMPLES cfg)"
    and const: "\<forall>i \<in> set ins. current_posl i = current_posl inp0
          \<and> current_posr i = current_posr inp0
          \<and> rlA (adc_buffer i) = V
          \<and> rlB (adc_buffer i) = V
          \<and> rrB (adc_buffer i) = V
          \<and> rrC (adc_buffer i) = V
          \<and> dcl (adc_buffer i) = V
          \<and> dcr (adc_buffer i) = V"
  shows "offsetrlA (run_ticks cfg ins s0) = ucast V
   \<and> offsetrlB (run_ticks cfg ins s0) = ucast V
   \<and> offsetrrB (run_ticks cfg ins s0) = ucast V
   \<and> offsetrrC (run_ticks cfg ins s0) = ucast V
   \<and> offsetdcl (run_ticks cfg ins s0) = ucast V
   \<and> offsetdcr (run_ticks cfg ins s0) = ucast V
   \<and> timer_brushless (run_ticks cfg ins s0) = Isr_bldc_control
   \<and> mainCounter (run_ticks cfg ins s0) = ucast (CALIBRATION_SAMPLES cfg)
   \<and> (\<forall>k < length ins.
         timer_brushless (run_ticks cfg (take k ins) s0) = Isr_calibration_func
         \<and> mainCounter (run_ticks cfg (take k ins) s0) = of_nat k
         \<and> offsetrlA (run_ticks cfg (take k ins) s0) = of_nat k * ucast V
         \<and> offsetrlB (run_ticks cfg (take k ins) s0) = of_nat k * ucast V
         \<and> offsetrrB (run_ticks cfg (take k ins) s0) = of_nat k * ucast V
         \<and> offsetrrC (run_ticks cfg (take k ins) s0) = of_nat k * ucast V
         \<and> offsetdcl (run_ticks cfg (take k ins) s0) = of_nat k * ucast V
         \<and> offsetdcr (run_ticks cfg (take k ins) s0) = of_nat k * ucast V)"
proof -
  have run0: "\<not> OverrunFlag s0" "timer_brushless s0 = Isr_calibration_func"
      "buzzerFunc s0 = Isr_nullFunc"
    using idle by (simp_all add: s0_def bldc_start_calibration_nf)
  have zero: "mainCounter s0 = 0" "offsetrlA s0 = 0" "offsetrlB s0 = 0" "offsetrrB s0 = 0"
      "offsetrrC s0 = 0" "offsetdcl s0 = 0" "offsetdcr s0 = 0"
    by (simp_all add: s0_def bldc_start_calibration_nf)
  have base: "pos s0 0 0 = current_posl inp0" "pos s0 1 0 = current_posr inp0"
    by (simp_all add: s0_def pos_after_start)
  have still: "\<forall>i \<in> set ins. current_posl i = pos s0 0 0 \<and> current_posr i = pos s0 1 0"
    unfolding base using const by blast
  have sums: "sum_list (map (\<lambda>i. ucast (f (adc_buffer i))) xs) = (of_nat (length xs) * ucast V :: uint32_t)"
    if "\<forall>i \<in> set xs. f (adc_buffer i) = V" for f :: "adc_buf_t \<Rightarrow> uint16_t" and xs :: "inputs list"
    using sum_const_samples [of xs "\<lambda>i. f (adc_buffer i)" V] that by simp
  have n: "(of_nat (length ins) :: uint32_t) = CALIBRATION_SAMPLES cfg"
    using len by simp
  note avg = average_of_constant [OF target fits]
  note fin = run_to_target [OF run0 still zero(1) len target]
  have final: "offsetrlA (run_ticks cfg ins s0) = ucast V
      \<and> offsetrlB (run_ticks cfg ins s0) = ucast V
      \<and> offsetrrB (run_ticks cfg ins s0) = ucast V
      \<and> offsetrrC (run_ticks cfg ins s0) = ucast V
      \<and> offsetdcl (run_ticks cfg ins s0) = ucast V
      \<and> offsetdcr (run_ticks cfg ins s0) = ucast V"
    using fin const by (simp add: zero sums n avg)
  have before: "timer_brushless (run_ticks cfg (take k ins) s0) = Isr_calibration_func
         \<and> mainCounter (run_ticks cfg (take k ins) s0) = of_nat k
         \<and> offsetrlA (run_ticks cfg (take k ins) s0) = of_nat k * ucast V
         \<and> offsetrlB (run_ticks cfg (take k ins) s0) = of_nat k * ucast V
         \<and> offsetrrB (run_ticks cfg (take k ins) s0) = of_nat k * ucast V
         \<and> offsetrrC (run_ticks cfg (take k ins) s0) = of_nat k * ucast V
         \<and> offsetdcl (run_ticks cfg (take k ins) s0) = of_nat k * ucast V
         \<and> offsetdcr (run_ticks cfg (take k ins) s0) = of_nat k * ucast V"
    if k: "k < length ins" for k
  proof -
    have sub: "set (take k ins) \<subseteq> set ins" by (rule set_take_subset)
    have lk: "length (take k ins) = k" using k by simp
    have stillk: "\<forall>i \<in> set (take k ins). current_posl i = pos s0 0 0 \<and> current_posr i = pos s0 1 0"
      using still sub by blast
    have ck: "\<forall>i \<in> set (take k ins). rlA (adc_buffer i) = V \<and> rlB (adc_buffer i) = V
        \<and> rrB (adc_buffer i) = V \<and> rrC (adc_buffer i) = V
        \<and> dcl (adc_buffer i) = V \<and> dcr (adc_buffer i) = V"
      using const sub by blast
    have srlA: "sum_list (map (\<lambda>i. ucast (rlA (adc_buffer i))) (take k ins)) = (of_nat k * ucast V :: uint32_t)"
      using sums [of "take k ins" rlA] ck lk by simp
    have srlB: "sum_list (map (\<lambda>i. ucast (rlB (adc_buffer i))) (take k ins)) = (of_nat k * ucast V :: uint32_t)"
      using sums [of "take k ins" rlB] ck lk by simp
    have srrB: "sum_list (map (\<lambda>i. ucast (rrB (adc_buffer i))) (take k ins)) = (of_nat k * ucast V :: uint32_t)"
      using sums [of "take k ins" rrB] ck lk by simp
    have srrC: "sum_list (map (\<lambda>i. ucast (rrC (adc_buffer i))) (take k ins)) = (of_nat k * ucast V :: uint32_t)"
      using sums [of "take k ins" rrC] ck lk by simp
    have sdcl: "sum_list (map (\<lambda>i. ucast (dcl (adc_buffer i))) (take k ins)) = (of_nat k * ucast V :: uint32_t)"
      using sums [of "take k ins" dcl] ck lk by simp
    have sdcr: "sum_list (map (\<lambda>i. ucast (dcr (adc_buffer i))) (take k ins)) = (of_nat k * ucast V :: uint32_t)"
      using sums [of "take k ins" dcr] ck lk by simp
    have countk: "unat (mainCounter s0) + length (take k ins) < unat (CALIBRATION_SAMPLES cfg)"
      using k len by (simp add: zero)
    note acc = run_accumulating [OF run0 stillk countk]
    show ?thesis
      using acc unfolding lk srlA srlB srrB srrC sdcl sdcr by (simp add: zero)
  qed
  show ?thesis
    using final fin before by simp
qed

theorem calibration_constant_input_witness:
  "offsetrlA (run_ticks reference_config (replicate 4 (const_inputs True False True 1500))
      (bldc_start_calibration (const_inputs True False True 1500) reset_state)) = 1500
   \<and> offsetdcr (run_ticks reference_config (replicate 4 (const_inputs True False True 1500))
      (bldc_start_calibration (const_inputs True False True 1500) reset_state)) = 1500
   \<and> timer_brushless (run_ticks reference_config (replicate 4 (const_inputs True False True 1500))
      (bldc_start_calibration (const_inputs True False True 1500) reset_state)) = Isr_bldc_control"
proof -
  let ?i = "const_inputs True False True 1500"
  have idle: "\<not> OverrunFlag reset_state" "buzzerFunc reset_state = Isr_nullFunc"
    by (simp_all add: reset_state_def)
  have target: "CALIBRATION_SAMPLES reference_config \<noteq> 0"
    by (simp add: reference_config_def)
  have fits: "unat (CALIBRATION_SAMPLES reference_config) * unat (1500 :: uint16_t) < 2 ^ 32"
    by (simp add: reference_config_def)
  have len: "length (replicate 4 ?i) = unat (CALIBRATION_SAMPLES reference_config)"
    by (simp add: reference_config_def)
  have const: "\<forall>i \<in> set (replicate 4 ?i). current_posl i = current_posl ?i
          \<and> current_posr i = current_posr ?i
          \<and> rlA (adc_buffer i) = 1500 \<and> rlB (adc_buffer i) = 1500
          \<and> rrB (adc_buffer i) = 1500 \<and> rrC (adc_buffer i) = 1500
          \<and> dcl (adc_buffer i) = 1500 \<and> dcr (adc_buffer i) = 1500"
    by (simp add: const_inputs_def)
  from calibration_constant_input [OF idle target fits len const]
  show ?thesis by simp
qed

text \<open>
  C7.  The restart does not leave the calibration as a fresh start does.  When the decoded
  sector differs from the baseline, \<open>calibration_func\<close> calls \<open>bldc_start_calibration\<close>
  (lines 141 to 144), which zeroes the counter and the accumulators, and then falls through
  to line 146 with the counter at 0: the same tick adds its sample, and \<open>N\<close> further ticks
  pass before the division by \<open>N\<close>.  With \<open>N = 4\<close> and every sample equal to 1500, the tick
  that restarts leaves the counter at 0 and the accumulator at 1500, and the offset
  finally produced is 1875, the sum of five samples divided by four; a calibration
  started by \<open>bldc_start_calibration\<close> on the same four samples produces 1500.
\<close>

theorem calibration_restart_extra_sample:
  "mainCounter (DMA1_Channel1_IRQHandler reference_config (const_inputs True False False 1500)
      (run_ticks reference_config (replicate 2 (const_inputs True False True 1500))
        (bldc_start_calibration (const_inputs True False True 1500) reset_state))) = 0
   \<and> offsetrlA (DMA1_Channel1_IRQHandler reference_config (const_inputs True False False 1500)
      (run_ticks reference_config (replicate 2 (const_inputs True False True 1500))
        (bldc_start_calibration (const_inputs True False True 1500) reset_state))) = 1500
   \<and> offsetrlA (run_ticks reference_config (replicate 4 (const_inputs True False False 1500))
      (DMA1_Channel1_IRQHandler reference_config (const_inputs True False False 1500)
        (run_ticks reference_config (replicate 2 (const_inputs True False True 1500))
          (bldc_start_calibration (const_inputs True False True 1500) reset_state)))) = 1875
   \<and> timer_brushless (run_ticks reference_config (replicate 4 (const_inputs True False False 1500))
      (DMA1_Channel1_IRQHandler reference_config (const_inputs True False False 1500)
        (run_ticks reference_config (replicate 2 (const_inputs True False True 1500))
          (bldc_start_calibration (const_inputs True False True 1500) reset_state)))) = Isr_bldc_control
   \<and> offsetrlA (run_ticks reference_config (replicate 4 (const_inputs True False False 1500))
      (bldc_start_calibration (const_inputs True False False 1500) reset_state)) = 1500"
proof -
  let ?i = "const_inputs True False True 1500"
  let ?j = "const_inputs True False False 1500"
  let ?start = "bldc_start_calibration ?i reset_state"
  let ?mid = "run_ticks reference_config (replicate 2 ?i) ?start"
  let ?fresh = "bldc_start_calibration ?j reset_state"
  have sect: "current_posl ?i = 4" "current_posr ?i = 4" "current_posl ?j = 3" "current_posr ?j = 3"
    by (simp_all add: current_posl_def current_posr_def const_inputs_def hall2pos_cases)
  have run0: "\<not> OverrunFlag ?start" "timer_brushless ?start = Isr_calibration_func"
      "buzzerFunc ?start = Isr_nullFunc"
    by (simp_all add: bldc_start_calibration_nf reset_state_def)
  have still0: "\<forall>i \<in> set (replicate 2 ?i). current_posl i = pos ?start 0 0 \<and> current_posr i = pos ?start 1 0"
    by (simp add: pos_after_start)
  have count0: "unat (mainCounter ?start) + length (replicate 2 ?i) < unat (CALIBRATION_SAMPLES reference_config)"
    by (simp add: bldc_start_calibration_nf reference_config_def)
  note acc = run_accumulating [OF run0 still0 count0]
  have run: "\<not> OverrunFlag ?mid" "timer_brushless ?mid = Isr_calibration_func" "buzzerFunc ?mid = Isr_nullFunc"
    using acc by simp_all
  have "pos ?mid 0 0 = 4"
    using acc by (simp add: pos_after_start sect)
  then have moved: "current_posl ?j \<noteq> pos ?mid 0 0 \<or> current_posr ?j \<noteq> pos ?mid 1 0"
    by (simp add: sect)
  have target: "CALIBRATION_SAMPLES reference_config \<noteq> 0"
    by (simp add: reference_config_def)
  have len: "length (replicate 4 ?j) = unat (CALIBRATION_SAMPLES reference_config)"
    by (simp add: reference_config_def)
  have adc: "rlA (adc_buffer (const_inputs u v w x)) = x" for u v w x
    by (simp add: const_inputs_def)
  have n: "CALIBRATION_SAMPLES reference_config = 4"
    by (simp add: reference_config_def)
  let ?r = "DMA1_Channel1_IRQHandler reference_config ?j ?mid"
  note r = irq_restart [OF run moved target]
  have run1: "\<not> OverrunFlag ?r" "timer_brushless ?r = Isr_calibration_func" "buzzerFunc ?r = Isr_nullFunc"
    using r by simp_all
  have still1: "\<forall>i \<in> set (replicate 4 ?j). current_posl i = pos ?r 0 0 \<and> current_posr i = pos ?r 1 0"
    using r by simp
  have zero1: "mainCounter ?r = 0"
    using r by simp
  note after = run_to_target [OF run1 still1 zero1 len target]
  have runf: "\<not> OverrunFlag ?fresh" "timer_brushless ?fresh = Isr_calibration_func"
      "buzzerFunc ?fresh = Isr_nullFunc"
    by (simp_all add: bldc_start_calibration_nf reset_state_def)
  have stillf: "\<forall>i \<in> set (replicate 4 ?j). current_posl i = pos ?fresh 0 0 \<and> current_posr i = pos ?fresh 1 0"
    by (simp add: pos_after_start)
  have zerof: "mainCounter ?fresh = 0" "offsetrlA ?fresh = 0"
    by (simp_all add: bldc_start_calibration_nf)
  note fresh = run_to_target [OF runf stillf zerof(1) len target]
  have a: "mainCounter ?r = 0 \<and> offsetrlA ?r = 1500"
    using r by (simp add: adc)
  have b: "offsetrlA (run_ticks reference_config (replicate 4 ?j) ?r) = 1875
      \<and> timer_brushless (run_ticks reference_config (replicate 4 ?j) ?r) = Isr_bldc_control"
    using after a by (simp add: n adc sum_list_replicate)
  have c: "offsetrlA (run_ticks reference_config (replicate 4 ?j) ?fresh) = 1500"
    using fresh by (simp add: n adc sum_list_replicate zerof)
  show ?thesis
    using a b c by blast
qed

text \<open>
  C8 fails as stated: an invocation that finds the overrun guard set has already
  incremented the tick counter (and cleared the interrupt flag) before it tests the guard.
\<close>

theorem overrun_invocation_counter_counterexample:
  "mainCounter (DMA1_Channel1_IRQHandler reference_config (const_inputs True False True 1500)
       (reset_state\<lparr>OverrunFlag := True\<rparr>))
     \<noteq> mainCounter (reset_state\<lparr>OverrunFlag := True\<rparr>)"
  by (simp add: DMA1_Channel1_IRQHandler_def Let_def reset_state_def)

text \<open>
  C8, amended.  An invocation that finds the overrun guard set writes the interrupt-clear
  register, increments the tick counter and returns: the offsets, sector history, step
  counters, timer registers, buzzer state, battery filter and both handler bindings are
  unchanged.
\<close>

theorem overrun_invocation_frame:
  fixes cfg :: "'dw config" and s :: "'dw state"
  assumes "OverrunFlag s"
  shows "DMA1_Channel1_IRQHandler cfg inp s =
       s\<lparr>DMA1_IFCR := DMA_IFCR_CTCIF1 cfg, mainCounter := mainCounter s + 1\<rparr>
   \<and> mainCounter (DMA1_Channel1_IRQHandler cfg inp s) = mainCounter s + 1
   \<and> offsetrlA (DMA1_Channel1_IRQHandler cfg inp s) = offsetrlA s
   \<and> offsetrlB (DMA1_Channel1_IRQHandler cfg inp s) = offsetrlB s
   \<and> offsetrrB (DMA1_Channel1_IRQHandler cfg inp s) = offsetrrB s
   \<and> offsetrrC (DMA1_Channel1_IRQHandler cfg inp s) = offsetrrC s
   \<and> offsetdcl (DMA1_Channel1_IRQHandler cfg inp s) = offsetdcl s
   \<and> offsetdcr (DMA1_Channel1_IRQHandler cfg inp s) = offsetdcr s
   \<and> pos (DMA1_Channel1_IRQHandler cfg inp s) = pos s
   \<and> steps (DMA1_Channel1_IRQHandler cfg inp s) = steps s
   \<and> LEFT_TIM (DMA1_Channel1_IRQHandler cfg inp s) = LEFT_TIM s
   \<and> RIGHT_TIM (DMA1_Channel1_IRQHandler cfg inp s) = RIGHT_TIM s
   \<and> buzzerTimer (DMA1_Channel1_IRQHandler cfg inp s) = buzzerTimer s
   \<and> buzzerPrev (DMA1_Channel1_IRQHandler cfg inp s) = buzzerPrev s
   \<and> buzzerIdx (DMA1_Channel1_IRQHandler cfg inp s) = buzzerIdx s
   \<and> BUZZER_PIN (DMA1_Channel1_IRQHandler cfg inp s) = BUZZER_PIN s
   \<and> batVoltage (DMA1_Channel1_IRQHandler cfg inp s) = batVoltage s
   \<and> batVoltageFixdt (DMA1_Channel1_IRQHandler cfg inp s) = batVoltageFixdt s
   \<and> timer_brushless (DMA1_Channel1_IRQHandler cfg inp s) = timer_brushless s
   \<and> buzzerFunc (DMA1_Channel1_IRQHandler cfg inp s) = buzzerFunc s"
  using assms by (simp add: irq_overrun)

theorem overrun_invocation_frame_witness:
  "DMA1_Channel1_IRQHandler reference_config (const_inputs True False True 1500)
       (reset_state\<lparr>OverrunFlag := True\<rparr>)
     = reset_state\<lparr>OverrunFlag := True, DMA1_IFCR := 2, mainCounter := 1\<rparr>
   \<and> TIM_U (LEFT_TIM (DMA1_Channel1_IRQHandler reference_config (const_inputs True False True 1500)
       (reset_state\<lparr>OverrunFlag := True\<rparr>))) = 0"
proof -
  have o: "OverrunFlag (reset_state\<lparr>OverrunFlag := True\<rparr>)" by simp
  from overrun_invocation_frame [OF o, of reference_config "const_inputs True False True 1500"]
  show ?thesis
    by (simp add: reference_config_def reset_state_def)
qed







end
